theory Spec2Isabelle
  imports Main "HOL-Library.Sublist"
begin

section \<open>Vision Helpdesk ticket watcher (vision-watcher.py)\<close>

text \<open>
  A shallow embedding of \<^verbatim>\<open>src/skills/vision-helpdesk/scripts/vision-watcher.py\<close>.
  Every function of the script that the properties below speak about is a HOL function of
  the same name. What the script reads from outside (the \<^verbatim>\<open>pass\<close> secret store, the
  ticketing API, the clock, the reasoning command, the chat endpoints, the file system) is
  an explicit argument; what it raises is a value of type \<open>error\<close>; what it prints or
  posts is a list of events.
\<close>

subsection \<open>Python strings\<close>

text \<open>
  A Python \<^verbatim>\<open>str\<close> is a sequence of Unicode code points, so it is a list of naturals
  here (an Isabelle \<open>char\<close> is a byte and could not hold the glyphs the script writes).
  \<open>str\<close> turns an ASCII literal into such a list.
\<close>

type_synonym pystr = "nat list"

definition str :: "string \<Rightarrow> pystr" where
  "str s = map of_char s"

text \<open>\<^verbatim>\<open>x in s\<close> on strings: \<open>x\<close> occurs in \<open>s\<close> as a contiguous block.\<close>

fun py_in :: "'a list \<Rightarrow> 'a list \<Rightarrow> bool" where
  "py_in xs [] = (xs = [])"
| "py_in xs (y # ys) = (prefix xs (y # ys) \<or> py_in xs ys)"

text \<open>
  \<^verbatim>\<open>str.isspace\<close> of one code point: the white space that \<^verbatim>\<open>str.strip()\<close>
  removes and that the pattern \<^verbatim>\<open>\s\<close> matches.
\<close>

definition is_space :: "nat \<Rightarrow> bool" where
  "is_space c \<longleftrightarrow>
     (9 \<le> c \<and> c \<le> 13) \<or> (28 \<le> c \<and> c \<le> 32) \<or> c = 133 \<or> c = 160 \<or> c = 5760 \<or>
     (8192 \<le> c \<and> c \<le> 8202) \<or> c = 8232 \<or> c = 8233 \<or> c = 8239 \<or> c = 8287 \<or> c = 12288"

definition strip_chars :: "(nat \<Rightarrow> bool) \<Rightarrow> pystr \<Rightarrow> pystr" where
  "strip_chars P s = rev (dropWhile P (rev (dropWhile P s)))"

definition strip :: "pystr \<Rightarrow> pystr" where
  "strip s = strip_chars is_space s"

text \<open>\<^verbatim>\<open>s.split(sep)\<close> for a separator of one code point.\<close>

fun split :: "nat \<Rightarrow> pystr \<Rightarrow> pystr list" where
  "split sep [] = [[]]"
| "split sep (c # cs) =
     (if c = sep then [] # split sep cs
      else (case split sep cs of [] \<Rightarrow> [[c]] | w # ws \<Rightarrow> (c # w) # ws))"

text \<open>\<^verbatim>\<open>str(n)\<close> for an integer: its decimal digits.\<close>

fun digits :: "nat \<Rightarrow> pystr" where
  "digits n = (if n < 10 then [48 + n] else digits (n div 10) @ [48 + n mod 10])"

declare digits.simps [simp del]

text \<open>
  Values of the JSON fields the script treats as opaque (a ticket's identifier and its
  revision marker): null, an integer or a string. On these Python's \<^verbatim>\<open>==\<close> is equality
  of the values, and \<^verbatim>\<open>str()\<close> is \<open>py_str\<close>.
\<close>

datatype jval = JNull | JInt int | JStr pystr

fun py_str :: "jval \<Rightarrow> pystr" where
  "py_str JNull = str ''None''"
| "py_str (JInt i) = (if i < 0 then 45 # digits (nat (- i)) else digits (nat i))"
| "py_str (JStr s) = s"

text \<open>Truthiness of an optional string (\<^verbatim>\<open>None\<close> and \<^verbatim>\<open>""\<close> are false).\<close>

fun truthy :: "pystr option \<Rightarrow> bool" where
  "truthy None = False"
| "truthy (Some s) = (s \<noteq> [])"

text \<open>\<^verbatim>\<open>a or b\<close> on optional strings.\<close>

fun py_or :: "pystr option \<Rightarrow> pystr option \<Rightarrow> pystr option" where
  "py_or a b = (if truthy a then a else b)"

subsection \<open>Errors\<close>

datatype error =
    RuntimeError pystr
  | KeyError
  | OSError
  | RequestException
  | FileNotFoundError
  | IsADirectoryError
  | OverflowError

subsection \<open>Data\<close>

text \<open>
  A ticket as the ticketing API returns it. A field is \<open>None\<close> when the JSON object has
  no such key. The text fields are strings, as in the data model of the specification;
  the identifier and the revision marker are opaque values. (\<open>ticket_modify_date\<close> is the
  key \<^verbatim>\<open>modify_date\<close> of a ticket; the plain name is the field of a seen record.)
\<close>

record ticket =
  ticket_id :: "jval option"
  ticket_hash :: "pystr option"
  subject :: "pystr option"
  company_name :: "pystr option"
  email :: "pystr option"
  priority :: "pystr option"
  status :: "pystr option"
  ticket_modify_date :: "jval option"

text \<open>\<^verbatim>\<open>d.get(key, default)\<close> and \<^verbatim>\<open>d.get(key) or default\<close> on a string field.\<close>

fun get_default :: "'a option \<Rightarrow> 'a \<Rightarrow> 'a" where
  "get_default None d = d"
| "get_default (Some v) d = v"

fun or_else :: "pystr option \<Rightarrow> pystr \<Rightarrow> pystr" where
  "or_else None d = d"
| "or_else (Some s) d = (if s = [] then d else s)"

text \<open>Truthiness of an optional opaque value: absent, null, 0 and \<^verbatim>\<open>""\<close> are false.\<close>

fun jtruthy :: "jval option \<Rightarrow> bool" where
  "jtruthy None = False"
| "jtruthy (Some JNull) = False"
| "jtruthy (Some (JInt i)) = (i \<noteq> 0)"
| "jtruthy (Some (JStr s)) = (s \<noteq> [])"

text \<open>
  The JSON object a request to the API answers with: \<^verbatim>\<open>data\<close> (the ticket list of
  \<^verbatim>\<open>get_tickets\<close>) and \<^verbatim>\<open>content\<close> (the body of \<^verbatim>\<open>ticket_details\<close>), each
  \<open>None\<close> when the key is absent.
\<close>

record response =
  data :: "ticket list option"
  content :: "pystr option"

text \<open>
  The state document \<^verbatim>\<open>{"seen_tickets": {id: {"modify_date", "first_seen",
  "last_updated"}}, "last_check"}\<close>. A field of a seen record is \<open>None\<close> when the
  record has no such key (a new record has no \<^verbatim>\<open>last_updated\<close>).
\<close>

record seen_record =
  modify_date :: "jval option"
  first_seen :: "pystr option"
  last_updated :: "pystr option"

record watcher_state =
  seen_tickets :: "pystr \<rightharpoonup> seen_record"
  last_check :: "pystr option"

text \<open>
  The file system: the directories that exist and the files with their contents. A file
  holds \<open>Document st\<close>, the text \<^verbatim>\<open>json.dumps(st, indent=2)\<close> on which
  \<^verbatim>\<open>json.loads\<close> gives \<open>st\<close> back, or \<open>Malformed\<close>, a text that \<^verbatim>\<open>json.loads\<close>
  rejects; a file that is no text, or holds JSON of another shape, is outside this model.
  A file is named by its path as given; \<open>dirname\<close> is \<^verbatim>\<open>os.path.dirname\<close>, the
  directory the file lies in (the empty string for the current directory).
\<close>

datatype file_content = Document watcher_state | Malformed

record filesystem =
  dirs :: "pystr set"
  files :: "pystr \<rightharpoonup> file_content"

definition dirname :: "pystr \<Rightarrow> pystr" where
  "dirname p =
     (let head = rev (dropWhile (\<lambda>c. c \<noteq> 47) (rev p))
      in if head \<noteq> [] \<and> \<not> list_all (\<lambda>c. c = 47) head
         then rev (dropWhile (\<lambda>c. c = 47) (rev head)) else head)"

text \<open>
  The values \<^verbatim>\<open>triage_with_claude\<close> puts into its prompt template: ticket hash, subject,
  company, priority, sender and the cleaned body text.
\<close>

record prompt =
  prompt_ticket :: pystr
  prompt_subject :: pystr
  prompt_company :: pystr
  prompt_priority :: pystr
  prompt_from :: pystr
  prompt_content :: pystr

text \<open>
  What a run prints, requests and posts, in order. An event keeps the values its line or
  payload is built from (the ticket rather than the rendered hash and subject).
\<close>

datatype event =
    Print_Skipping ticket pystr
  | Print_Triaging ticket
  | Get_Details ticket jval
  | Run_Claude ticket prompt
  | Post_Slack pystr pystr ticket pystr
  | Print_Posted_Slack ticket pystr
  | Err_Slack_Failed
  | Post_Discord pystr ticket pystr
  | Print_Posted ticket
  | Err_Discord_Failed
  | Print_Verdict ticket pystr
  | Post_Alert pystr pystr "(ticket \<times> pystr) list" nat
  | Err_Alert_Failed
  | Err_Checking error
  | Print_Json "ticket list" "ticket list"
  | Print_Checked
  | Print_New_Count nat
  | Print_Updated_Count nat
  | Print_New ticket

subsection \<open>The outside world\<close>

text \<open>
  \<^verbatim>\<open>subprocess.run(["pass", path], capture_output=True, text=True, check=True)\<close>:
  the command ran and exited with 0 (its standard output), exited with another status
  (\<^verbatim>\<open>CalledProcessError\<close>), or could not be started (an \<^verbatim>\<open>OSError\<close>).
\<close>

datatype proc_result = Completed pystr | CalledProcessError | SpawnFailed

datatype http_result = HttpFailed | HttpJson response

text \<open>
  \<^verbatim>\<open>subprocess.run(["claude", "--print", prompt], ..., timeout=60)\<close>: the command
  exited (return code and standard output), timed out, or raised something else (with
  the text of the exception).
\<close>

datatype claude_result = Exited int pystr | TimeoutExpired | Raised pystr

text \<open>
  A post to Slack: the answer says \<^verbatim>\<open>ok\<close>, or does not, or the request raised a
  \<^verbatim>\<open>RequestException\<close> (as does \<^verbatim>\<open>response.json()\<close> on a body that is no JSON).
  A post to a webhook: \<^verbatim>\<open>raise_for_status\<close> passed, or a \<^verbatim>\<open>RequestException\<close>
  was raised.
\<close>

datatype slack_result = Slack_Ok | Slack_Not_Ok | Slack_Request_Failed

datatype webhook_result = Webhook_Ok | Webhook_Request_Failed

text \<open>\<^verbatim>\<open>datetime.fromtimestamp(n).strftime(...)\<close>: the text, or the exception raised.\<close>

datatype ts_result = Formatted pystr | Ts_ValueError | Ts_OverflowError | Ts_OSError

text \<open>
  The world of one run: the secret store, the process environment, the API (by URL and
  request parameters), the reasoning command and the chat endpoints (by the number of the
  ticket being triaged, or of the alert), the clock and two library functions.
  \<open>now_iso k\<close> is \<^verbatim>\<open>datetime.now().isoformat()\<close> at the \<open>k\<close>-th reading of a
  detection pass, \<open>since_epoch h\<close> is
  \<^verbatim>\<open>int((datetime.now() - timedelta(hours=h)).timestamp())\<close> (\<open>None\<close> when the date is
  out of range, an \<^verbatim>\<open>OverflowError\<close>), \<open>int_of_str s\<close> is
  \<^verbatim>\<open>int(s)\<close> (\<open>None\<close> for \<^verbatim>\<open>ValueError\<close>), and \<open>default_state_file\<close> is
  \<^verbatim>\<open>os.path.expanduser("~/.vision-watcher-state.json")\<close>.
\<close>

record world =
  pass_cmd :: "pystr \<Rightarrow> proc_result"
  environ :: "pystr \<rightharpoonup> pystr"
  http_get :: "pystr \<Rightarrow> (pystr \<times> jval) list \<Rightarrow> http_result"
  claude_cmd :: "nat \<Rightarrow> prompt \<Rightarrow> claude_result"
  slack_post :: "nat \<Rightarrow> pystr \<Rightarrow> slack_result"
  webhook_post :: "nat \<Rightarrow> pystr \<Rightarrow> webhook_result"
  now_iso :: "nat \<Rightarrow> pystr"
  since_epoch :: "int \<Rightarrow> int option"
  int_of_str :: "pystr \<Rightarrow> int option"
  fromtimestamp :: "int \<Rightarrow> ts_result"
  default_state_file :: pystr

subsection \<open>get_credentials\<close>

text \<open>
  The loop body over the lines of the secret:
  \<^verbatim>\<open>if "=" in line and not line.strip().startswith("#"):
      key, value = line.split("=", 1)
      creds[key.strip()] = value.strip().strip('"')\<close>
\<close>

definition is_comment :: "pystr \<Rightarrow> bool" where
  "is_comment line = prefix [35] (strip line)"

definition parse_line :: "(pystr \<rightharpoonup> pystr) \<Rightarrow> pystr \<Rightarrow> (pystr \<rightharpoonup> pystr)" where
  "parse_line creds line =
     (if 61 \<in> set line \<and> \<not> is_comment line then
        let key = takeWhile (\<lambda>c. c \<noteq> 61) line;
            val = tl (dropWhile (\<lambda>c. c \<noteq> 61) line)
        in creds(strip key \<mapsto> strip_chars (\<lambda>c. c = 34) (strip val))
      else creds)"

definition parse_creds :: "pystr \<Rightarrow> (pystr \<rightharpoonup> pystr)" where
  "parse_creds stdout = foldl parse_line Map.empty (split 10 (strip stdout))"

record credentials =
  token :: "pystr option"
  url :: pystr

definition default_url :: pystr where
  "default_url = str ''https://clients.sipcapturer.com/api/index.php''"

text \<open>
  \<^verbatim>\<open>normalized\<close>: the token is \<^verbatim>\<open>creds["token"]\<close> when that key is present,
  otherwise \<^verbatim>\<open>creds["VISION_TOKEN"]\<close>; the URL defaults.
\<close>

definition normalize_creds :: "(pystr \<rightharpoonup> pystr) \<Rightarrow> credentials" where
  "normalize_creds creds =
     \<lparr>token = (case creds (str ''token'') of Some t \<Rightarrow> Some t
                | None \<Rightarrow> creds (str ''VISION_TOKEN'')),
      url = (case creds (str ''url'') of Some u \<Rightarrow> u | None \<Rightarrow> default_url)\<rparr>"

definition paths_to_try :: "pystr \<Rightarrow> pystr list" where
  "paths_to_try profile = [str ''vision/'' @ profile, profile @ str ''/visionhelpdesk/env'']"

text \<open>
  The \<^verbatim>\<open>for path in paths_to_try\<close> loop. \<^verbatim>\<open>CalledProcessError\<close> is the only
  exception the loop catches; the \<^verbatim>\<open>raise RuntimeError\<close> after it is the \<open>[]\<close> case.
  The function reads the secret store only: \<open>environ\<close> is not consulted.
\<close>

fun try_paths :: "world \<Rightarrow> pystr \<Rightarrow> pystr list \<Rightarrow> error + credentials" where
  "try_paths w profile [] =
     Inl (RuntimeError (str ''Could not load credentials for profile '' @ profile))"
| "try_paths w profile (path # paths) =
     (case pass_cmd w path of
        CalledProcessError \<Rightarrow> try_paths w profile paths
      | SpawnFailed \<Rightarrow> Inl OSError
      | Completed stdout \<Rightarrow>
          let normalized = normalize_creds (parse_creds stdout)
          in if truthy (token normalized) then Inr normalized
             else try_paths w profile paths)"

definition get_credentials :: "world \<Rightarrow> pystr \<Rightarrow> error + credentials" where
  "get_credentials w profile = try_paths w profile (paths_to_try profile)"

subsection \<open>api_request\<close>

definition api_request ::
  "world \<Rightarrow> pystr \<Rightarrow> (pystr \<times> jval) list \<Rightarrow> pystr \<Rightarrow> error + response" where
  "api_request w operation params profile =
     (case get_credentials w profile of
        Inl e \<Rightarrow> Inl e
      | Inr creds \<Rightarrow>
          (case token creds of
             None \<Rightarrow> Inl KeyError
           | Some tok \<Rightarrow>
               let request_params =
                     [(str ''vis_txttoken'', JStr tok),
                      (str ''vis_module'', JStr (str ''ticket'')),
                      (str ''vis_operation'', JStr operation),
                      (str ''vis_encode'', JStr (str ''json''))] @ params
               in (case http_get w (url creds) request_params of
                     HttpFailed \<Rightarrow> Inl RequestException
                   | HttpJson r \<Rightarrow> Inr r)))"

subsection \<open>load_state, save_state\<close>

definition empty_state :: watcher_state where
  "empty_state = \<lparr>seen_tickets = Map.empty, last_check = None\<rparr>"

text \<open>
  \<^verbatim>\<open>path.exists()\<close> holds for a file or a directory; reading a directory raises an
  \<^verbatim>\<open>IOError\<close> and a malformed text a \<^verbatim>\<open>JSONDecodeError\<close>, both passed over.
\<close>

definition load_state :: "filesystem \<Rightarrow> pystr \<Rightarrow> watcher_state" where
  "load_state fs state_file =
     (if state_file \<in> dirs fs then empty_state
      else (case files fs state_file of
              Some (Document st) \<Rightarrow> st
            | Some Malformed \<Rightarrow> empty_state
            | None \<Rightarrow> empty_state))"

text \<open>
  \<^verbatim>\<open>Path(p).write_text(text)\<close> opens \<open>p\<close> for writing: it fails when \<open>p\<close> is a
  directory or when the directory of \<open>p\<close> does not exist, and otherwise creates or
  replaces the file. It creates no directory.
\<close>

definition write_text :: "filesystem \<Rightarrow> pystr \<Rightarrow> file_content \<Rightarrow> error + filesystem" where
  "write_text fs p text =
     (if p \<in> dirs fs then Inl IsADirectoryError
      else if dirname p \<notin> dirs fs then Inl FileNotFoundError
      else Inr (fs\<lparr>files := (files fs)(p \<mapsto> text)\<rparr>))"

definition save_state :: "watcher_state \<Rightarrow> pystr \<Rightarrow> filesystem \<Rightarrow> error + filesystem" where
  "save_state state state_file fs = write_text fs state_file (Document state)"

subsection \<open>format_timestamp, send_discord_alert\<close>

text \<open>
  \<^verbatim>\<open>int(ts)\<close> raises \<^verbatim>\<open>TypeError\<close> on \<^verbatim>\<open>None\<close> and \<^verbatim>\<open>ValueError\<close> on a string
  that is no number; with the \<^verbatim>\<open>ValueError\<close> of \<^verbatim>\<open>fromtimestamp\<close> these are the
  exceptions caught. Its \<^verbatim>\<open>OverflowError\<close> and \<^verbatim>\<open>OSError\<close> are not.
\<close>

definition format_timestamp :: "world \<Rightarrow> jval \<Rightarrow> error + pystr" where
  "format_timestamp w ts =
     (case (case ts of JNull \<Rightarrow> None | JInt i \<Rightarrow> Some i | JStr s \<Rightarrow> int_of_str w s) of
        None \<Rightarrow> Inr (py_str ts)
      | Some n \<Rightarrow>
          (case fromtimestamp w n of
             Formatted s \<Rightarrow> Inr s
           | Ts_ValueError \<Rightarrow> Inr (py_str ts)
           | Ts_OverflowError \<Rightarrow> Inl OverflowError
           | Ts_OSError \<Rightarrow> Inl OSError))"

text \<open>The loop that builds the embed fields, one per ticket of \<^verbatim>\<open>tickets[:10]\<close>.\<close>

fun alert_fields :: "world \<Rightarrow> ticket list \<Rightarrow> error + (ticket \<times> pystr) list" where
  "alert_fields w [] = Inr []"
| "alert_fields w (t # ts) =
     (case format_timestamp w (get_default (ticket_modify_date t) (JStr [])) of
        Inl e \<Rightarrow> Inl e
      | Inr modified \<Rightarrow>
          (case alert_fields w ts of
             Inl e \<Rightarrow> Inl e
           | Inr flds \<Rightarrow> Inr ((t, modified) # flds)))"

text \<open>
  The event \<open>Post_Alert url title fields more\<close> is the post of the embed; \<open>more\<close> is the
  number in the footer's \<^verbatim>\<open>+N more\<close> (0 when there is none).
\<close>

definition send_discord_alert ::
  "world \<Rightarrow> nat \<Rightarrow> pystr \<Rightarrow> pystr \<Rightarrow> ticket list \<Rightarrow> error + event list" where
  "send_discord_alert w n webhook_url title tickets =
     (if tickets = [] then Inr []
      else (case alert_fields w (take 10 tickets) of
              Inl e \<Rightarrow> Inl e
            | Inr flds \<Rightarrow>
                Inr (Post_Alert webhook_url title flds (length tickets - 10) #
                     (case webhook_post w n webhook_url of
                        Webhook_Ok \<Rightarrow> []
                      | Webhook_Request_Failed \<Rightarrow> [Err_Alert_Failed]))))"

subsection \<open>get_ticket_details\<close>

definition empty_response :: response where
  "empty_response = \<lparr>data = None, content = None\<rparr>"

definition get_ticket_details :: "world \<Rightarrow> jval \<Rightarrow> pystr \<Rightarrow> response" where
  "get_ticket_details w tid profile =
     (case api_request w (str ''ticket_details'') [(str ''vis_ticket_id'', tid)] profile of
        Inl e \<Rightarrow> empty_response
      | Inr result \<Rightarrow> result)"

subsection \<open>generate_fallback_triage\<close>

definition nl :: pystr where "nl = [10]"

text \<open>The glyphs U+26AA, U+1F7E2, U+1F7E1 and U+1F534 of the urgency field.\<close>

definition white_circle :: pystr where "white_circle = [9898]"
definition green_circle :: pystr where "green_circle = [128994]"
definition yellow_circle :: pystr where "yellow_circle = [128993]"
definition red_circle :: pystr where "red_circle = [128308]"

text \<open>\<^verbatim>\<open>any(sig in text for sig in sigs)\<close>\<close>

definition any_in :: "pystr list \<Rightarrow> pystr \<Rightarrow> bool" where
  "any_in sigs text = list_ex (\<lambda>sig. py_in sig text) sigs"

definition spam_signals :: "pystr list" where
  "spam_signals = map str [''unsubscribe'', ''click here'', ''act now'', ''limited time'',
     ''invoice attached'', ''get funds'', ''eligible invoices'', ''marketing'', ''newsletter'']"

definition auto_signals :: "pystr list" where
  "auto_signals = [str ''automatic reply'', str ''auto-reply'', str ''autoreply'',
     str ''i am currently out'', str ''i will be out of the office'',
     str ''i'' @ [39] @ str ''m currently out'', str ''thank you for your email'',
     str ''i will respond when i return'']"

definition request_signals :: "pystr list" where
  "request_signals = map str [''please'', ''need'', ''want'', ''can you'', ''could you'',
     ''forward'', ''change'', ''update'']"

definition billing_signals :: "pystr list" where
  "billing_signals = map str [''invoice'', ''payment'', ''billing'', ''charge'', ''receipt'',
     ''account balance'']"

definition urgent_signals :: "pystr list" where
  "urgent_signals = [str ''down'', str ''not working'', str ''emergency'', str ''urgent'',
     str ''asap'', str ''can'' @ [39] @ str ''t make calls'', str ''no dial tone'']"

text \<open>
  \<open>lower\<close> is \<^verbatim>\<open>str.lower\<close>. The function is stated for whatever \<^verbatim>\<open>str.lower\<close>
  computes: it is an argument here and of every function that folds case.
\<close>

definition generate_fallback_triage ::
  "(pystr \<Rightarrow> pystr) \<Rightarrow> ticket \<Rightarrow> pystr \<Rightarrow> pystr \<Rightarrow> pystr \<Rightarrow> pystr" where
  "generate_fallback_triage lower ticket subj cont reason =
     (let subject_lower = lower subj;
          content_lower = take 500 (lower cont);
          combined = subject_lower @ str '' '' @ content_lower;
          is_request = any_in request_signals combined
      in
      if any_in spam_signals combined then
        str ''**Summary:** Likely spam or marketing email'' @ nl @
        str ''**Category:** spam'' @ nl @
        str ''**Urgency:** '' @ white_circle @ str '' None'' @ nl @
        str ''**Action:** Ignore - spam/marketing''
      else if any_in auto_signals combined \<and> \<not> is_request then
        str ''**Summary:** Auto-reply/OOO message'' @ nl @
        str ''**Category:** other'' @ nl @
        str ''**Urgency:** '' @ white_circle @ str '' None'' @ nl @
        str ''**Action:** Close - auto-reply''
      else if any_in billing_signals combined then
        str ''**Summary:** '' @ take 60 subj @ nl @
        str ''**Category:** billing'' @ nl @
        str ''**Urgency:** '' @ green_circle @ str '' Low'' @ nl @
        str ''**Action:** Forward to accounting''
      else
        let urgency =
              (if any_in urgent_signals combined then red_circle @ str '' High''
               else if any_in (map str [''forwarding'', ''routing'', ''voicemail'', ''greeting''])
                         combined
                    then yellow_circle @ str '' Medium''
               else yellow_circle @ str '' Medium'');
            category =
              (if any_in (map str [''forward'', ''routing'', ''route'', ''transfer'', ''redirect''])
                    combined then str ''routing''
               else if any_in (map str [''voicemail'', ''vm'', ''greeting'', ''message''])
                         combined then str ''voicemail''
               else if any_in (map str [''phone'', ''handset'', ''device'', ''hardware''])
                         combined then str ''hardware''
               else str ''other'');
            reason_note =
              (if reason \<noteq> [] then str '' (fallback: '' @ reason @ str '')'' else [])
        in str ''**Summary:** '' @ take 60 subj @ nl @
           str ''**Category:** '' @ category @ nl @
           str ''**Urgency:** '' @ urgency @ nl @
           str ''**Action:** Review ticket'' @ reason_note)"

subsection \<open>triage_with_claude\<close>

text \<open>\<^verbatim>\<open>re.sub(r'<[^>]+>', ' ', s)\<close>: a \<^verbatim>\<open><\<close>, one or more code points other than
  \<^verbatim>\<open>>\<close>, and a \<^verbatim>\<open>>\<close> become one blank.\<close>

function strip_tags :: "pystr \<Rightarrow> pystr" where
  "strip_tags [] = []"
| "strip_tags (c # cs) =
     (if c = 60 \<and> takeWhile (\<lambda>x. x \<noteq> 62) cs \<noteq> [] \<and> dropWhile (\<lambda>x. x \<noteq> 62) cs \<noteq> []
      then 32 # strip_tags (tl (dropWhile (\<lambda>x. x \<noteq> 62) cs))
      else c # strip_tags cs)"
  by pat_completeness auto
termination
proof (relation "measure length")
  fix c :: nat and cs :: pystr
  have "length (tl (dropWhile (\<lambda>x. x \<noteq> 62) cs)) \<le> length cs"
    using length_dropWhile_le [of "\<lambda>x. x \<noteq> 62" cs] by simp
  then show "(tl (dropWhile (\<lambda>x. x \<noteq> 62) cs), c # cs) \<in> measure length" by simp
qed simp_all

text \<open>\<^verbatim>\<open>re.sub(r'\s+', ' ', s)\<close>: every run of white space becomes one blank.\<close>

function collapse_ws :: "pystr \<Rightarrow> pystr" where
  "collapse_ws [] = []"
| "collapse_ws (c # cs) =
     (if is_space c then 32 # collapse_ws (dropWhile is_space cs) else c # collapse_ws cs)"
  by pat_completeness auto
termination
proof (relation "measure length")
  fix c :: nat and cs :: pystr
  show "(dropWhile is_space cs, c # cs) \<in> measure length"
    using length_dropWhile_le [of is_space cs] by simp
qed simp_all

definition content_text :: "response \<Rightarrow> pystr" where
  "content_text ticket_details =
     take 2000 (strip (collapse_ws (strip_tags (get_default (content ticket_details) []))))"

text \<open>
  \<open>n\<close> is the number of the ticket being triaged in this run. The result is the events
  (the command run) and the summary.
\<close>

definition triage_with_claude ::
  "(pystr \<Rightarrow> pystr) \<Rightarrow> world \<Rightarrow> nat \<Rightarrow> ticket \<Rightarrow> response \<Rightarrow> event list \<times> pystr" where
  "triage_with_claude lower w n ticket ticket_details =
     (let subj = get_default (subject ticket) (str ''No subject'');
          text = content_text ticket_details;
          p = \<lparr>prompt_ticket = get_default (ticket_hash ticket) (str ''?''),
               prompt_subject = subj,
               prompt_company = or_else (company_name ticket) (str ''Unknown''),
               prompt_priority = get_default (priority ticket) (str ''?''),
               prompt_from = get_default (email ticket) [],
               prompt_content = text\<rparr>
      in ([Run_Claude ticket p],
          (case claude_cmd w n p of
             Exited returncode stdout \<Rightarrow>
               if returncode = 0 \<and> strip stdout \<noteq> [] then strip stdout
               else generate_fallback_triage lower ticket subj text []
           | TimeoutExpired \<Rightarrow>
               generate_fallback_triage lower ticket subj text (str ''timeout'')
           | Raised msg \<Rightarrow>
               generate_fallback_triage lower ticket subj text (take 50 msg))))"

subsection \<open>post_triage_to_discord, post_triage_to_slack\<close>

text \<open>
  Each builds its payload from the ticket and the summary (cut to 2000 and 2900 code
  points), posts it, and reports the outcome on standard output or standard error. A
  \<^verbatim>\<open>RequestException\<close> is caught in both.
\<close>

definition post_triage_to_discord :: "world \<Rightarrow> nat \<Rightarrow> pystr \<Rightarrow> ticket \<Rightarrow> pystr \<Rightarrow> event list" where
  "post_triage_to_discord w n webhook_url ticket triage_summary =
     Post_Discord webhook_url ticket (take 2000 triage_summary) #
     (case webhook_post w n webhook_url of
        Webhook_Ok \<Rightarrow> [Print_Posted ticket]
      | Webhook_Request_Failed \<Rightarrow> [Err_Discord_Failed])"

definition post_triage_to_slack ::
  "world \<Rightarrow> nat \<Rightarrow> pystr \<Rightarrow> ticket \<Rightarrow> pystr \<Rightarrow> pystr \<Rightarrow> event list" where
  "post_triage_to_slack w n channel ticket triage_summary bot_token =
     Post_Slack channel bot_token ticket (take 2900 triage_summary) #
     (case slack_post w n channel of
        Slack_Ok \<Rightarrow> [Print_Posted_Slack ticket channel]
      | Slack_Not_Ok \<Rightarrow> [Err_Slack_Failed]
      | Slack_Request_Failed \<Rightarrow> [Err_Slack_Failed])"

subsection \<open>should_skip_ticket\<close>

definition billing_keywords :: "pystr list" where
  "billing_keywords = map str [''invoice'', ''payment'', ''funding'', ''funds'', ''billing'',
     ''receipt'', ''statement'', ''balance due'', ''pay now'',
     ''eligible invoices'', ''get funds'', ''received your invoice'']"

definition spam_domains :: "pystr list" where
  "spam_domains = map str [''marketing'', ''newsletter'', ''promo'', ''noreply@'']"

definition system_keywords :: "pystr list" where
  "system_keywords = map str [''automatic notification'', ''do not reply'', ''system alert'']"

definition should_skip_ticket :: "(pystr \<Rightarrow> pystr) \<Rightarrow> ticket \<Rightarrow> bool \<times> pystr" where
  "should_skip_ticket lower ticket =
     (let subj = lower (or_else (subject ticket) []);
          company = lower (or_else (company_name ticket) []);
          mail = lower (or_else (email ticket) [])
      in if any_in billing_keywords subj then (True, str ''billing/invoice'')
         else if any_in spam_domains mail then (True, str ''spam sender'')
         else if any_in system_keywords subj then (True, str ''system notification'')
         else (False, []))"

subsection \<open>triage_tickets_immediately\<close>

text \<open>
  The body of \<^verbatim>\<open>for ticket in tickets[:10]\<close>, with \<open>triaged_count\<close> carried along.
  The \<^verbatim>\<open>break\<close> is the first branch, the \<^verbatim>\<open>continue\<close> the second.
\<close>

fun triage_loop ::
  "(pystr \<Rightarrow> pystr) \<Rightarrow> world \<Rightarrow> pystr \<Rightarrow> pystr option \<Rightarrow> pystr option \<Rightarrow> pystr option \<Rightarrow>
   ticket list \<Rightarrow> nat \<Rightarrow> event list" where
  "triage_loop lower w profile slack_channel slack_token discord_webhook [] triaged_count = []"
| "triage_loop lower w profile slack_channel slack_token discord_webhook (ticket # rest)
     triaged_count =
     (if triaged_count \<ge> 5 then []
      else if fst (should_skip_ticket lower ticket) then
        Print_Skipping ticket (snd (should_skip_ticket lower ticket)) #
        triage_loop lower w profile slack_channel slack_token discord_webhook rest triaged_count
      else
        let n = triaged_count + 1;
            fetch = (if jtruthy (ticket_id ticket)
                     then [Get_Details ticket (get_default (ticket_id ticket) JNull)] else []);
            details = (if jtruthy (ticket_id ticket)
                       then get_ticket_details w (get_default (ticket_id ticket) JNull) profile
                       else empty_response);
            asked = triage_with_claude lower w n ticket details;
            summary = snd asked;
            posted =
              (if truthy slack_channel \<and> truthy slack_token then
                 post_triage_to_slack w n (get_default slack_channel []) ticket summary
                   (get_default slack_token [])
               else if truthy discord_webhook then
                 post_triage_to_discord w n (get_default discord_webhook []) ticket summary
               else [Print_Verdict ticket summary])
        in Print_Triaging ticket # fetch @ fst asked @ posted @
           triage_loop lower w profile slack_channel slack_token discord_webhook rest n)"

definition triage_tickets_immediately ::
  "(pystr \<Rightarrow> pystr) \<Rightarrow> world \<Rightarrow> ticket list \<Rightarrow> pystr \<Rightarrow> pystr option \<Rightarrow> pystr option \<Rightarrow>
   pystr option \<Rightarrow> event list" where
  "triage_tickets_immediately lower w tickets profile slack_channel slack_token discord_webhook =
     triage_loop lower w profile slack_channel slack_token discord_webhook (take 10 tickets) 0"

subsection \<open>check_tickets\<close>

text \<open>
  The body of \<^verbatim>\<open>for ticket in tickets\<close>. The loop state is \<^verbatim>\<open>seen\<close>,
  \<^verbatim>\<open>new_tickets\<close>, \<^verbatim>\<open>updated_tickets\<close> and the number of clock readings so far.
  \<^verbatim>\<open>seen[ticket_id].get("modify_date")\<close> is \<^verbatim>\<open>None\<close> when the record has no such
  key.
\<close>

definition ticket_key :: "ticket \<Rightarrow> pystr" where
  "ticket_key t = py_str (get_default (ticket_id t) (JStr []))"

definition modify_time :: "ticket \<Rightarrow> jval" where
  "modify_time t = get_default (ticket_modify_date t) (JStr [])"

type_synonym check_state = "(pystr \<rightharpoonup> seen_record) \<times> ticket list \<times> ticket list \<times> nat"

fun check_step :: "(nat \<Rightarrow> pystr) \<Rightarrow> check_state \<Rightarrow> ticket \<Rightarrow> check_state" where
  "check_step now (seen, new_tickets, updated_tickets, k) t =
     (if ticket_key t = [] then (seen, new_tickets, updated_tickets, k)
      else
        (case seen (ticket_key t) of
           None \<Rightarrow>
             (seen(ticket_key t \<mapsto>
                \<lparr>modify_date = Some (modify_time t), first_seen = Some (now k),
                 last_updated = None\<rparr>),
              new_tickets @ [t], updated_tickets, k + 1)
         | Some r \<Rightarrow>
             if get_default (modify_date r) JNull \<noteq> modify_time t then
               (seen(ticket_key t \<mapsto>
                  r\<lparr>modify_date := Some (modify_time t), last_updated := Some (now k)\<rparr>),
                new_tickets, updated_tickets @ [t], k + 1)
             else (seen, new_tickets, updated_tickets, k)))"

definition check_loop :: "(nat \<Rightarrow> pystr) \<Rightarrow> ticket list \<Rightarrow> check_state \<Rightarrow> check_state" where
  "check_loop now tickets s = foldl (check_step now) s tickets"

text \<open>
  The first half of \<^verbatim>\<open>check_tickets\<close>, up to \<^verbatim>\<open>tickets = result.get("data", [])\<close>:
  the query, and the ticket list it answers with.
\<close>

definition query_tickets :: "world \<Rightarrow> pystr \<Rightarrow> int \<Rightarrow> error + ticket list" where
  "query_tickets w profile lookback_hours =
     (case since_epoch w lookback_hours of
        None \<Rightarrow> Inl OverflowError
      | Some since \<Rightarrow>
          let params = [(str ''vis_filter'', JStr (str ''modify_date>'' @ py_str (JInt since))),
                        (str ''vis_details_req'', JInt 1),
                        (str ''vis_skip_info'', JInt 1),
                        (str ''vis_limit'', JStr (str ''0,100''))]
          in (case api_request w (str ''get_tickets'') params profile of
                Inl e \<Rightarrow> Inl e
              | Inr result \<Rightarrow> Inr (get_default (data result) [])))"

text \<open>
  On a failed request nothing has been changed: the state is mutated after the query
  only. On success the result is the two lists and the mutated state.
\<close>

definition check_tickets ::
  "world \<Rightarrow> pystr \<Rightarrow> watcher_state \<Rightarrow> int \<Rightarrow>
   error + ((ticket list \<times> ticket list) \<times> watcher_state)" where
  "check_tickets w profile state lookback_hours =
     (case query_tickets w profile lookback_hours of
        Inl e \<Rightarrow> Inl e
      | Inr tickets \<Rightarrow>
          (case check_loop (now_iso w) tickets (seen_tickets state, [], [], 0) of
             (seen, new_tickets, updated_tickets, k) \<Rightarrow>
               Inr ((new_tickets, updated_tickets),
                    state\<lparr>seen_tickets := seen, last_check := Some (now_iso w k)\<rparr>)))"

definition filter_important :: "ticket list \<Rightarrow> ticket list" where
  "filter_important tickets =
     filter (\<lambda>t. priority t = Some (str ''High'') \<or> priority t = Some (str ''Urgent'')) tickets"

subsection \<open>main\<close>

record args =
  arg_profile :: pystr
  arg_state_file :: pystr
  arg_webhook_url :: "pystr option"
  arg_hours :: int
  arg_quiet :: bool
  arg_important_only :: bool
  arg_triage :: bool
  arg_slack_channel :: "pystr option"
  arg_slack_token :: "pystr option"
  arg_json :: bool

text \<open>
  How the process ends: \<^verbatim>\<open>sys.exit(n)\<close> (or the return from \<^verbatim>\<open>main\<close>, status 0), or
  an exception nobody catches, which ends the interpreter with status 1.
\<close>

datatype outcome = Exit int | Uncaught error


text \<open>U+1F3AB and U+1F504, the glyphs of the two alert titles.\<close>

definition new_title :: "nat \<Rightarrow> pystr" where
  "new_title n = [127915] @ str '' '' @ digits n @ str '' New Ticket(s)''"

definition update_title :: "nat \<Rightarrow> pystr" where
  "update_title n = [128260] @ str '' '' @ digits n @ str '' High-Priority Update(s)''"

text \<open>
  The \<^verbatim>\<open>elif webhook_url\<close> branch of \<^verbatim>\<open>main\<close>: the events, and the exception if
  one of the two alerts raised.
\<close>

definition basic_alerts ::
  "world \<Rightarrow> pystr \<Rightarrow> ticket list \<Rightarrow> ticket list \<Rightarrow> event list \<times> error option" where
  "basic_alerts w webhook_url new_tickets updated_tickets =
     (case (if new_tickets \<noteq> []
            then send_discord_alert w 0 webhook_url (new_title (length new_tickets)) new_tickets
            else Inr []) of
        Inl e \<Rightarrow> ([], Some e)
      | Inr sent \<Rightarrow>
          let important_updates = filter_important updated_tickets
          in (case (if updated_tickets \<noteq> [] \<and> important_updates \<noteq> []
                    then send_discord_alert w 1 webhook_url
                           (update_title (length important_updates)) important_updates
                    else Inr []) of
                Inl e \<Rightarrow> (sent, Some e)
              | Inr sent' \<Rightarrow> (sent @ sent', None)))"

text \<open>
  One run of the script on parsed arguments: how it ends, the file system it leaves, and
  what it printed and posted.
\<close>

definition main ::
  "(pystr \<Rightarrow> pystr) \<Rightarrow> args \<Rightarrow> world \<Rightarrow> filesystem \<Rightarrow> outcome \<times> filesystem \<times> event list" where
  "main lower a w fs =
     (let webhook_url = py_or (arg_webhook_url a) (environ w (str ''VISION_WATCHER_WEBHOOK''));
          state_file =
            (if arg_state_file a \<noteq> [] then arg_state_file a
             else get_default (environ w (str ''VISION_WATCHER_STATE'')) (default_state_file w));
          state = load_state fs state_file
      in case check_tickets w (arg_profile a) state (arg_hours a) of
           Inl e \<Rightarrow> (Exit 1, fs, [Err_Checking e])
         | Inr ((found_new, found_updated), state') \<Rightarrow>
             let new_tickets =
                   (if arg_important_only a then filter_important found_new else found_new);
                 updated_tickets =
                   (if arg_important_only a then filter_important found_updated
                    else found_updated)
             in (case save_state state' state_file fs of
                   Inl e \<Rightarrow> (Uncaught e, fs, [])
                 | Inr fs' \<Rightarrow>
                     if arg_json a then (Exit 0, fs', [Print_Json new_tickets updated_tickets])
                     else
                       let summary =
                             (if \<not> arg_quiet a
                              then [Print_Checked, Print_New_Count (length new_tickets),
                                    Print_Updated_Count (length updated_tickets)]
                              else []);
                           listing =
                             (if new_tickets \<noteq> [] \<and> \<not> arg_quiet a
                              then map Print_New new_tickets else [])
                       in if arg_triage a \<and> new_tickets \<noteq> [] then
                            (Exit 0, fs',
                             summary @
                             triage_tickets_immediately lower w new_tickets (arg_profile a)
                               (arg_slack_channel a)
                               (py_or (arg_slack_token a) (environ w (str ''SLACK_BOT_TOKEN'')))
                               webhook_url @
                             listing)
                          else if truthy webhook_url then
                            (case basic_alerts w (get_default webhook_url []) new_tickets
                                    updated_tickets of
                               (sent, Some e) \<Rightarrow> (Uncaught e, fs', summary @ sent)
                             | (sent, None) \<Rightarrow> (Exit 0, fs', summary @ sent @ listing))
                          else (Exit 0, fs', summary @ listing)))"

subsection \<open>Notions the properties are stated with\<close>

text \<open>
  Detection run after run: every run starts from the state the run before left. A run
  whose query fails leaves the state as it was.
\<close>

fun run_cycles :: "world list \<Rightarrow> pystr \<Rightarrow> int \<Rightarrow> watcher_state \<Rightarrow> watcher_state" where
  "run_cycles [] profile hours state = state"
| "run_cycles (w # ws) profile hours state =
     (case check_tickets w profile state hours of
        Inl e \<Rightarrow> run_cycles ws profile hours state
      | Inr (found, state') \<Rightarrow> run_cycles ws profile hours state')"

text \<open>All tickets the runs received, oldest first.\<close>

definition received :: "world list \<Rightarrow> pystr \<Rightarrow> int \<Rightarrow> ticket list" where
  "received ws profile hours =
     concat (map (\<lambda>w. case query_tickets w profile hours of Inl e \<Rightarrow> [] | Inr ts \<Rightarrow> ts) ws)"

text \<open>The revision a state holds for an identifier (\<^verbatim>\<open>None\<close> is \<open>JNull\<close>).\<close>

definition stored_revision :: "watcher_state \<Rightarrow> pystr \<Rightarrow> jval option" where
  "stored_revision state i =
     map_option (\<lambda>r. get_default (modify_date r) JNull) (seen_tickets state i)"

text \<open>
  Two detection runs, the second on the state the first left: what the second finds.
\<close>

definition second_run ::
  "world \<Rightarrow> world \<Rightarrow> pystr \<Rightarrow> int \<Rightarrow> watcher_state \<Rightarrow> (ticket list \<times> ticket list) option" where
  "second_run w1 w2 profile hours state =
     (case check_tickets w1 profile state hours of
        Inl e \<Rightarrow> None
      | Inr (found1, state1) \<Rightarrow>
          (case check_tickets w2 profile state1 hours of
             Inl e \<Rightarrow> None
           | Inr (found2, state2) \<Rightarrow> Some found2))"

text \<open>A dataset in which the entries of one identifier carry one revision.\<close>

definition one_revision_per_id :: "ticket list \<Rightarrow> bool" where
  "one_revision_per_id ds \<longleftrightarrow>
     (\<forall>t \<in> set ds. \<forall>t' \<in> set ds. ticket_key t = ticket_key t' \<longrightarrow> modify_time t = modify_time t')"

text \<open>
  A verdict of four fields and its text, and the values the category and the urgency
  may take.
\<close>

record verdict =
  verdict_summary :: pystr
  verdict_category :: pystr
  verdict_urgency :: pystr
  verdict_action :: pystr

definition render_verdict :: "verdict \<Rightarrow> pystr" where
  "render_verdict v =
     str ''**Summary:** '' @ verdict_summary v @ nl @
     str ''**Category:** '' @ verdict_category v @ nl @
     str ''**Urgency:** '' @ verdict_urgency v @ nl @
     str ''**Action:** '' @ verdict_action v"



text \<open>
  The ticket an event of a triage pass is about; the candidates a pass looked at (one
  \<^verbatim>\<open>Skipping\<close> or \<^verbatim>\<open>Triaging\<close> line each); and the verdicts it delivered, each with
  its destination.
\<close>

fun about :: "event \<Rightarrow> ticket option" where
  "about (Print_Skipping t reason) = Some t"
| "about (Print_Triaging t) = Some t"
| "about (Get_Details t tid) = Some t"
| "about (Run_Claude t p) = Some t"
| "about (Post_Slack channel tok t text) = Some t"
| "about (Print_Posted_Slack t channel) = Some t"
| "about (Post_Discord webhook t text) = Some t"
| "about (Print_Posted t) = Some t"
| "about (Print_Verdict t text) = Some t"
| "about (Print_New t) = Some t"
| "about e = None"

fun scanned :: "event \<Rightarrow> ticket option" where
  "scanned (Print_Skipping t reason) = Some t"
| "scanned (Print_Triaging t) = Some t"
| "scanned e = None"

datatype destination = Slack | Discord | Local

fun delivery :: "event \<Rightarrow> (destination \<times> ticket) option" where
  "delivery (Post_Slack channel tok t text) = Some (Slack, t)"
| "delivery (Post_Discord webhook t text) = Some (Discord, t)"
| "delivery (Print_Verdict t text) = Some (Local, t)"
| "delivery e = None"

text \<open>The precedence of the destinations: bot-token channel, webhook, local output.\<close>

definition chosen_destination :: "pystr option \<Rightarrow> pystr option \<Rightarrow> pystr option \<Rightarrow> destination" where
  "chosen_destination slack_channel slack_token discord_webhook =
     (if truthy slack_channel \<and> truthy slack_token then Slack
      else if truthy discord_webhook then Discord
      else Local)"

definition candidates :: "event list \<Rightarrow> ticket list" where
  "candidates evs = List.map_filter scanned evs"

definition deliveries :: "event list \<Rightarrow> (destination \<times> ticket) list" where
  "deliveries evs = List.map_filter delivery evs"

definition verdicts :: "event list \<Rightarrow> ticket list" where
  "verdicts evs = map snd (deliveries evs)"

text \<open>The tickets a triage pass gives a verdict: the first five it does not skip among
  the first ten.\<close>

definition to_triage :: "(pystr \<Rightarrow> pystr) \<Rightarrow> ticket list \<Rightarrow> ticket list" where
  "to_triage lower tickets =
     take 5 (filter (\<lambda>t. \<not> fst (should_skip_ticket lower t)) (take 10 tickets))"

text \<open>
  What one lookup path of the secret store yields: the normalized credentials when the
  command succeeds and they hold a non-empty token, nothing otherwise.
\<close>

definition secret_at :: "world \<Rightarrow> pystr \<Rightarrow> credentials option" where
  "secret_at w path =
     (case pass_cmd w path of
        Completed stdout \<Rightarrow>
          if truthy (token (normalize_creds (parse_creds stdout)))
          then Some (normalize_creds (parse_creds stdout)) else None
      | CalledProcessError \<Rightarrow> None
      | SpawnFailed \<Rightarrow> None)"






text \<open>\<^verbatim>\<open>str.lower\<close> on text whose cased letters are the ASCII letters.\<close>

definition ascii_lower :: "pystr \<Rightarrow> pystr" where
  "ascii_lower s = map (\<lambda>c. if 65 \<le> c \<and> c \<le> 90 then c + 32 else c) s"

subsection \<open>Sample inputs\<close>

text \<open>
  A ticket with identifier, revision and subject; and a world in which the secret store
  holds a token, the API answers every request with the dataset \<open>ds\<close> and a body that
  reports an outage, the reasoning command times out and every post fails.
\<close>

definition sample_ticket :: "pystr \<Rightarrow> pystr \<Rightarrow> pystr \<Rightarrow> ticket" where
  "sample_ticket i revision subj =
     \<lparr>ticket_id = Some (JStr i), ticket_hash = Some (84 # i), subject = Some subj,
      company_name = None, email = None, priority = None, status = None,
      ticket_modify_date = Some (JStr revision)\<rparr>"

definition world_of :: "ticket list \<Rightarrow> world" where
  "world_of ds =
     \<lparr>pass_cmd = (\<lambda>path. Completed (str ''VISION_TOKEN=secret'')),
      environ = Map.empty,
      http_get = (\<lambda>u params.
         HttpJson \<lparr>data = Some ds, content = Some (str ''urgent: all phones are down'')\<rparr>),
      claude_cmd = (\<lambda>n p. TimeoutExpired),
      slack_post = (\<lambda>n channel. Slack_Request_Failed),
      webhook_post = (\<lambda>n u. Webhook_Request_Failed),
      now_iso = (\<lambda>k. str ''2026-01-01T00:00:00''),
      since_epoch = (\<lambda>h. Some 0),
      int_of_str = (\<lambda>s. None),
      fromtimestamp = (\<lambda>n. Ts_ValueError),
      default_state_file = str ''state.json''\<rparr>"

text \<open>Twenty tickets, numbered 1 to 20, that report an outage.\<close>

definition twenty_tickets :: "ticket list" where
  "twenty_tickets =
     map (\<lambda>i. sample_ticket (digits i) (str ''100'') (str ''no dial tone''))
       [1, 2, 3, 4, 5, 6, 7, 8, 9, 10, 11, 12, 13, 14, 15, 16, 17, 18, 19, 20]"

text \<open>The ticket of the specification's billing scenario (U+2014 is the dash).\<close>

definition invoice_ticket :: ticket where
  "invoice_ticket =
     sample_ticket (str ''552'') (str ''100'')
       (str ''Invoice #552 attached '' @ [8212] @ str '' please pay'')"

text \<open>
  The arguments \<^verbatim>\<open>--triage --quiet\<close> with a state file in the current directory, and a
  file system that holds the current directory and nothing else.
\<close>

definition triage_args :: args where
  "triage_args =
     \<lparr>arg_profile = str ''20859'', arg_state_file = str ''state.json'',
      arg_webhook_url = None, arg_hours = 2, arg_quiet = True, arg_important_only = False,
      arg_triage = True, arg_slack_channel = None, arg_slack_token = None, arg_json = False\<rparr>"

definition sample_fs :: filesystem where
  "sample_fs = \<lparr>dirs = {[]}, files = Map.empty\<rparr>"

text \<open>
  A world whose secret store has nothing for any path while the environment holds
  tokens; a world whose first path fails and whose second holds a secret with a comment,
  the legacy token key in quotes, and a URL; and a world whose API is down.
\<close>

definition locked_world :: world where
  "locked_world =
     (world_of [])
       \<lparr>pass_cmd := (\<lambda>path. CalledProcessError),
        environ := [str ''VISION_TOKEN'' \<mapsto> str ''secret'',
                    str ''VISION_20859_TOKEN'' \<mapsto> str ''secret'',
                    str ''VISION_URL'' \<mapsto> str ''https://helpdesk.example/api'']\<rparr>"

definition stored_secret :: pystr where
  "stored_secret =
     str ''# helpdesk'' @ nl @ str ''VISION_TOKEN='' @ [34] @ str ''abc'' @ [34] @ nl @
     str ''url = https://helpdesk.example/api'' @ nl"

definition store_world :: world where
  "store_world =
     (world_of [])
       \<lparr>pass_cmd := (\<lambda>path. if path = str ''vision/20859'' then CalledProcessError
                              else Completed stored_secret)\<rparr>"



text \<open>A state that has seen ticket 1 at revision 100 and ticket 7 at revision 70.\<close>

definition sample_state :: watcher_state where
  "sample_state =
     \<lparr>seen_tickets =
        [str ''1'' \<mapsto> \<lparr>modify_date = Some (JStr (str ''100'')),
                       first_seen = Some (str ''2025-12-31T09:00:00''), last_updated = None\<rparr>,
         str ''7'' \<mapsto> \<lparr>modify_date = Some (JStr (str ''70'')),
                       first_seen = Some (str ''2025-12-30T08:00:00''), last_updated = None\<rparr>],
      last_check = None\<rparr>"

section \<open>Properties\<close>

subsection \<open>The sample inputs, evaluated\<close>

lemma parse_sample:
  "normalize_creds (parse_creds (str ''VISION_TOKEN=secret'')) =
   \<lparr>token = Some (str ''secret''), url = default_url\<rparr>"
  by (simp add: normalize_creds_def parse_creds_def parse_line_def str_def strip_def strip_chars_def
        is_space_def is_comment_def)

lemma get_credentials_world_of:
  "get_credentials (world_of ds) profile =
   Inr \<lparr>token = Some (str ''secret''), url = default_url\<rparr>"
  by (simp add: get_credentials_def paths_to_try_def world_of_def parse_sample)
     (simp add: str_def)

lemma query_tickets_world_of: "query_tickets (world_of ds) profile hours = Inr ds"
proof -
  have "since_epoch (world_of ds) hours = Some 0"
    and "\<And>u params. http_get (world_of ds) u params =
          HttpJson \<lparr>data = Some ds, content = Some (str ''urgent: all phones are down'')\<rparr>"
    by (simp_all add: world_of_def)
  then show ?thesis
    by (simp add: query_tickets_def api_request_def get_credentials_world_of)
qed

lemma ticket_key_sample: "ticket_key (sample_ticket i revision subj) = i"
  by (simp add: ticket_key_def sample_ticket_def)

lemma modify_time_sample: "modify_time (sample_ticket i revision subj) = JStr revision"
  by (simp add: modify_time_def sample_ticket_def)

subsection \<open>Detection: one step, one pass, run after run\<close>

lemma check_step_frame:
  "ticket_key t \<noteq> i \<or> i = [] \<Longrightarrow> fst (check_step now s t) i = fst s i"
  by (cases s) (auto split: option.splits)

lemma check_step_same:
  "ticket_key t \<noteq> [] \<Longrightarrow>
   \<exists>r. fst (check_step now s t) (ticket_key t) = Some r \<and>
       get_default (modify_date r) JNull = modify_time t"
  by (cases s) (auto split: option.splits)

lemma check_step_keeps:
  "fst s i = Some r \<Longrightarrow>
   \<exists>r'. fst (check_step now s t) i = Some r' \<and>
        r' = r\<lparr>modify_date := modify_date r', last_updated := last_updated r'\<rparr>"
  by (cases s) (auto split: option.splits)

lemma check_loop_snoc:
  "check_loop now (ts @ [t]) s = check_step now (check_loop now ts s) t"
  by (simp add: check_loop_def)

text \<open>
  After a pass the revision stored for an identifier is that of its last entry in the
  dataset; an identifier with no entry keeps what it had.
\<close>

lemma check_loop_revision:
  assumes "i \<noteq> []"
  shows "(filter (\<lambda>t. ticket_key t = i) ts = [] \<longrightarrow> fst (check_loop now ts s) i = fst s i) \<and>
         (filter (\<lambda>t. ticket_key t = i) ts \<noteq> [] \<longrightarrow>
            (\<exists>r. fst (check_loop now ts s) i = Some r \<and>
                 get_default (modify_date r) JNull =
                 modify_time (last (filter (\<lambda>t. ticket_key t = i) ts))))"
proof (induction ts rule: rev_induct)
  case Nil
  show ?case by (simp add: check_loop_def)
next
  case (snoc t ts)
  show ?case
  proof (cases "ticket_key t = i")
    case True
    with assms check_step_same [of t now "check_loop now ts s"]
    show ?thesis by (simp add: check_loop_snoc)
  next
    case False
    with snoc check_step_frame [of t i now "check_loop now ts s"]
    show ?thesis by (simp add: check_loop_snoc)
  qed
qed

lemma check_loop_frame:
  "\<forall>t \<in> set ts. ticket_key t \<noteq> i \<Longrightarrow> fst (check_loop now ts s) i = fst s i"
proof (induction ts arbitrary: s)
  case Nil
  show ?case by (simp add: check_loop_def)
next
  case (Cons t ts)
  have "fst (check_loop now ts (check_step now s t)) i = fst (check_step now s t) i"
    using Cons by simp
  also have "\<dots> = fst s i" using Cons.prems by (simp add: check_step_frame)
  finally show ?case by (simp add: check_loop_def)
qed

lemma seen_record_only_two:
  assumes "r1 = r\<lparr>modify_date := m1, last_updated := u1\<rparr>"
    and "r2 = r1\<lparr>modify_date := m2, last_updated := u2\<rparr>"
  shows "r2 = r\<lparr>modify_date := modify_date r2, last_updated := last_updated r2\<rparr>"
  using assms by simp

lemma check_loop_keeps:
  "fst s i = Some r \<Longrightarrow>
   \<exists>r'. fst (check_loop now ts s) i = Some r' \<and>
        r' = r\<lparr>modify_date := modify_date r', last_updated := last_updated r'\<rparr>"
proof (induction ts arbitrary: s r)
  case Nil
  then show ?case by (simp add: check_loop_def)
next
  case (Cons t ts)
  from check_step_keeps [OF Cons.prems, of now t] obtain r1 where
    r1: "fst (check_step now s t) i = Some r1"
        "r1 = r\<lparr>modify_date := modify_date r1, last_updated := last_updated r1\<rparr>"
    by blast
  from Cons.IH [OF r1(1)] obtain r2 where
    r2: "fst (check_loop now ts (check_step now s t)) i = Some r2"
        "r2 = r1\<lparr>modify_date := modify_date r2, last_updated := last_updated r2\<rparr>"
    by blast
  from r1(2) r2(2)
  have "r2 = r\<lparr>modify_date := modify_date r2, last_updated := last_updated r2\<rparr>"
    by (rule seen_record_only_two)
  with r2(1) show ?case by (simp add: check_loop_def)
qed

text \<open>A pass over a dataset whose entries the state already holds changes nothing.\<close>

lemma check_loop_fixed:
  "\<forall>t \<in> set ts. ticket_key t \<noteq> [] \<longrightarrow>
      (\<exists>r. fst s (ticket_key t) = Some r \<and> get_default (modify_date r) JNull = modify_time t) \<Longrightarrow>
   check_loop now ts s = s"
proof (induction ts)
  case Nil
  show ?case by (simp add: check_loop_def)
next
  case (Cons t ts)
  have "check_step now s t = s"
    using Cons.prems by (cases s) (auto split: option.splits)
  with Cons show ?case by (simp add: check_loop_def)
qed

lemma check_loop_settles:
  assumes "one_revision_per_id ds" and "seen' = fst (check_loop now ds s)"
  shows "check_loop now' ds (seen', n, u, k) = (seen', n, u, k)"
proof (rule check_loop_fixed, intro ballI impI)
  fix t assume t: "t \<in> set ds" and key: "ticket_key t \<noteq> []"
  let ?occ = "filter (\<lambda>t'. ticket_key t' = ticket_key t) ds"
  from t have ne: "?occ \<noteq> []" by (auto simp: filter_empty_conv)
  then have "last ?occ \<in> set ?occ" by (rule last_in_set)
  then have "last ?occ \<in> set ds" "ticket_key (last ?occ) = ticket_key t" by auto
  with assms(1) t have m: "modify_time (last ?occ) = modify_time t"
    unfolding one_revision_per_id_def by blast
  from check_loop_revision [OF key, of ds now s] ne obtain r where
    "fst (check_loop now ds s) (ticket_key t) = Some r"
    "get_default (modify_date r) JNull = modify_time (last ?occ)" by blast
  with m assms(2)
  show "\<exists>r. fst (seen', n, u, k) (ticket_key t) = Some r \<and>
            get_default (modify_date r) JNull = modify_time t"
    by simp
qed

lemma check_tickets_seen:
  "check_tickets w profile state hours = Inr (found, state') \<Longrightarrow>
   \<exists>ts. query_tickets w profile hours = Inr ts \<and>
        seen_tickets state' = fst (check_loop (now_iso w) ts (seen_tickets state, [], [], 0))"
  by (auto simp: check_tickets_def split: sum.splits prod.splits)

lemma check_tickets_fails:
  "check_tickets w profile state hours = Inl e \<Longrightarrow> query_tickets w profile hours = Inl e"
  by (auto simp: check_tickets_def split: sum.splits prod.splits)

lemma run_cycles_revision:
  assumes "i \<noteq> []"
  shows "(filter (\<lambda>t. ticket_key t = i) (received ws profile hours) = [] \<longrightarrow>
            seen_tickets (run_cycles ws profile hours state) i = seen_tickets state i) \<and>
         (filter (\<lambda>t. ticket_key t = i) (received ws profile hours) \<noteq> [] \<longrightarrow>
            (\<exists>r. seen_tickets (run_cycles ws profile hours state) i = Some r \<and>
                 get_default (modify_date r) JNull =
                 modify_time (last (filter (\<lambda>t. ticket_key t = i) (received ws profile hours)))))"
proof (induction ws arbitrary: state)
  case Nil
  show ?case by (simp add: received_def)
next
  case (Cons w ws)
  show ?case
  proof (cases "check_tickets w profile state hours")
    case (Inl e)
    then have "query_tickets w profile hours = Inl e" by (rule check_tickets_fails)
    then have "received (w # ws) profile hours = received ws profile hours"
      by (simp add: received_def)
    with Inl Cons [of state] show ?thesis by simp
  next
    case (Inr res)
    obtain found state' where res: "res = (found, state')" by (cases res)
    with Inr check_tickets_seen obtain ts where
      q: "query_tickets w profile hours = Inr ts" and
      s: "seen_tickets state' = fst (check_loop (now_iso w) ts (seen_tickets state, [], [], 0))"
      by blast
    from q have r: "received (w # ws) profile hours = ts @ received ws profile hours"
      by (simp add: received_def)
    have run: "run_cycles (w # ws) profile hours state = run_cycles ws profile hours state'"
      using Inr res by simp
    note one = check_loop_revision [OF assms, of ts "now_iso w" "(seen_tickets state, [], [], 0)"]
    show ?thesis
    proof (cases "filter (\<lambda>t. ticket_key t = i) (received ws profile hours) = []")
      case True
      with Cons [of state'] one s show ?thesis unfolding run r by simp
    next
      case False
      with Cons [of state'] show ?thesis unfolding run r by simp
    qed
  qed
qed

lemma run_cycles_frame:
  "\<forall>t \<in> set (received ws profile hours). ticket_key t \<noteq> i \<Longrightarrow>
   seen_tickets (run_cycles ws profile hours state) i = seen_tickets state i"
proof (induction ws arbitrary: state)
  case Nil
  show ?case by simp
next
  case (Cons w ws)
  show ?case
  proof (cases "check_tickets w profile state hours")
    case (Inl e)
    then have "query_tickets w profile hours = Inl e" by (rule check_tickets_fails)
    then have "received (w # ws) profile hours = received ws profile hours"
      by (simp add: received_def)
    with Inl Cons.IH [of state] Cons.prems show ?thesis by simp
  next
    case (Inr res)
    obtain found state' where res: "res = (found, state')" by (cases res)
    with Inr check_tickets_seen obtain ts where
      q: "query_tickets w profile hours = Inr ts" and
      s: "seen_tickets state' = fst (check_loop (now_iso w) ts (seen_tickets state, [], [], 0))"
      by blast
    from q have r: "received (w # ws) profile hours = ts @ received ws profile hours"
      by (simp add: received_def)
    have run: "run_cycles (w # ws) profile hours state = run_cycles ws profile hours state'"
      using Inr res by simp
    from Cons.prems r have "\<forall>t \<in> set ts. ticket_key t \<noteq> i"
      and rest: "\<forall>t \<in> set (received ws profile hours). ticket_key t \<noteq> i" by auto
    then have "seen_tickets state' i = seen_tickets state i"
      using check_loop_frame [of ts i "now_iso w" "(seen_tickets state, [], [], 0)"] s by simp
    with Cons.IH [OF rest, of state'] show ?thesis unfolding run by simp
  qed
qed

lemma run_cycles_keeps:
  "seen_tickets state i = Some r \<Longrightarrow>
   \<exists>r'. seen_tickets (run_cycles ws profile hours state) i = Some r' \<and>
        r' = r\<lparr>modify_date := modify_date r', last_updated := last_updated r'\<rparr>"
proof (induction ws arbitrary: state r)
  case Nil
  then show ?case by simp
next
  case (Cons w ws)
  show ?case
  proof (cases "check_tickets w profile state hours")
    case (Inl e)
    with Cons.IH [OF Cons.prems] show ?thesis by simp
  next
    case (Inr res)
    obtain found state' where res: "res = (found, state')" by (cases res)
    with Inr check_tickets_seen obtain ts where
      s: "seen_tickets state' = fst (check_loop (now_iso w) ts (seen_tickets state, [], [], 0))"
      by blast
    have run: "run_cycles (w # ws) profile hours state = run_cycles ws profile hours state'"
      using Inr res by simp
    from check_loop_keeps [of "(seen_tickets state, [], [], 0)" i r "now_iso w" ts] Cons.prems s
    obtain r1 where r1: "seen_tickets state' i = Some r1"
      "r1 = r\<lparr>modify_date := modify_date r1, last_updated := last_updated r1\<rparr>" by auto
    from Cons.IH [OF r1(1)] obtain r2 where
      r2: "seen_tickets (run_cycles ws profile hours state') i = Some r2"
          "r2 = r1\<lparr>modify_date := modify_date r2, last_updated := last_updated r2\<rparr>"
      by blast
    from r1(2) r2(2)
    have "r2 = r\<lparr>modify_date := modify_date r2, last_updated := last_updated r2\<rparr>"
      by (rule seen_record_only_two)
    with r2(1) show ?thesis unfolding run by simp
  qed
qed

subsection \<open>Change detection\<close>

text \<open>
  Claim C1. The revision stored for a ticket identifier is replaced by the revision
  received, last write wins: after any number of detection runs, each on the state the
  run before left, the revision stored for an identifier that some run received is the
  revision of its last entry in the most recent response that included it. No order on
  revisions is consulted, so a response that is out of order is stored like any other.
  Nothing else touches a stored revision: through runs that do not receive the
  identifier, and through runs whose query fails, it stays what it was.
\<close>

theorem revision_last_write_wins:
  assumes "i \<noteq> []"
  shows "(filter (\<lambda>t. ticket_key t = i) (received ws profile hours) \<noteq> [] \<longrightarrow>
            stored_revision (run_cycles ws profile hours state) i =
            Some (modify_time (last (filter (\<lambda>t. ticket_key t = i) (received ws profile hours))))) \<and>
         (filter (\<lambda>t. ticket_key t = i) (received ws profile hours) = [] \<longrightarrow>
            stored_revision (run_cycles ws profile hours state) i = stored_revision state i)"
  using run_cycles_revision [OF assms, of ws profile hours state]
  by (auto simp: stored_revision_def)

text \<open>
  Tickets 1 and 7 are stored at revisions 100 and 70; one run receives ticket 1 at 150,
  the next at 120, out of order. The state ends with ticket 1 at 120 and ticket 7 at 70.
\<close>

theorem revision_last_write_wins_witness:
  "str ''1'' \<noteq> [] \<and> str ''7'' \<noteq> [] \<and>
   filter (\<lambda>t. ticket_key t = str ''1'')
     (received [world_of [sample_ticket (str ''1'') (str ''150'') (str ''no dial tone'')],
                world_of [sample_ticket (str ''1'') (str ''120'') (str ''no dial tone'')]]
        (str ''20859'') 2) \<noteq> [] \<and>
   stored_revision sample_state (str ''1'') = Some (JStr (str ''100'')) \<and>
   stored_revision
     (run_cycles [world_of [sample_ticket (str ''1'') (str ''150'') (str ''no dial tone'')],
                  world_of [sample_ticket (str ''1'') (str ''120'') (str ''no dial tone'')]]
        (str ''20859'') 2 sample_state) (str ''1'') = Some (JStr (str ''120'')) \<and>
   filter (\<lambda>t. ticket_key t = str ''7'')
     (received [world_of [sample_ticket (str ''1'') (str ''150'') (str ''no dial tone'')],
                world_of [sample_ticket (str ''1'') (str ''120'') (str ''no dial tone'')]]
        (str ''20859'') 2) = [] \<and>
   stored_revision
     (run_cycles [world_of [sample_ticket (str ''1'') (str ''150'') (str ''no dial tone'')],
                  world_of [sample_ticket (str ''1'') (str ''120'') (str ''no dial tone'')]]
        (str ''20859'') 2 sample_state) (str ''7'') = Some (JStr (str ''70''))"
proof -
  let ?ws = "[world_of [sample_ticket (str ''1'') (str ''150'') (str ''no dial tone'')],
              world_of [sample_ticket (str ''1'') (str ''120'') (str ''no dial tone'')]]"
  have r: "received ?ws (str ''20859'') 2 =
           [sample_ticket (str ''1'') (str ''150'') (str ''no dial tone''),
            sample_ticket (str ''1'') (str ''120'') (str ''no dial tone'')]"
    by (simp add: received_def query_tickets_world_of)
  have h1: "str ''1'' \<noteq> []" and h7: "str ''7'' \<noteq> []" by (simp_all add: str_def)
  have h2: "filter (\<lambda>t. ticket_key t = str ''1'') (received ?ws (str ''20859'') 2) \<noteq> []"
    by (simp add: r ticket_key_sample)
  have h3: "stored_revision sample_state (str ''1'') = Some (JStr (str ''100''))"
    by (simp add: stored_revision_def sample_state_def str_def)
  have h4: "filter (\<lambda>t. ticket_key t = str ''7'') (received ?ws (str ''20859'') 2) = []"
    unfolding r by (simp add: ticket_key_sample str_def)
  have h5: "stored_revision sample_state (str ''7'') = Some (JStr (str ''70''))"
    by (simp add: stored_revision_def sample_state_def str_def)
  from revision_last_write_wins [OF h1, of ?ws "str ''20859''" 2 sample_state] h2
  have a: "stored_revision (run_cycles ?ws (str ''20859'') 2 sample_state) (str ''1'') =
           Some (JStr (str ''120''))"
    by (simp add: r ticket_key_sample modify_time_sample)
  from revision_last_write_wins [OF h7, of ?ws "str ''20859''" 2 sample_state] h4 h5
  have b: "stored_revision (run_cycles ?ws (str ''20859'') 2 sample_state) (str ''7'') =
           Some (JStr (str ''70''))"
    by simp
  from h1 h7 h2 h3 a h4 b show ?thesis by blast
qed

text \<open>
  Claim C2, as amended. Detection is idempotent on a dataset in which the entries of one
  identifier carry one revision (in particular when no identifier occurs twice): a
  second run over the same dataset, on the state the first run left, finds no new and no
  updated ticket.
\<close>

theorem detection_idempotent:
  assumes "query_tickets w1 profile hours = Inr ds"
    and "query_tickets w2 profile hours = Inr ds"
    and "one_revision_per_id ds"
  shows "second_run w1 w2 profile hours state = Some ([], [])"
proof -
  obtain seen1 new1 upd1 k1 where
    l1: "check_loop (now_iso w1) ds (seen_tickets state, [], [], 0) = (seen1, new1, upd1, k1)"
    by (cases "check_loop (now_iso w1) ds (seen_tickets state, [], [], 0)") auto
  let ?state1 = "state\<lparr>seen_tickets := seen1, last_check := Some (now_iso w1 k1)\<rparr>"
  have c1: "check_tickets w1 profile state hours = Inr ((new1, upd1), ?state1)"
    by (simp add: check_tickets_def assms(1) l1)
  have "seen1 = fst (check_loop (now_iso w1) ds (seen_tickets state, [], [], 0))"
    by (simp add: l1)
  from check_loop_settles [OF assms(3) this, of "now_iso w2" "[]" "[]" 0]
  have l2: "check_loop (now_iso w2) ds (seen1, [], [], 0) = (seen1, [], [], 0)" .
  have c2: "check_tickets w2 profile ?state1 hours =
            Inr (([], []), ?state1\<lparr>seen_tickets := seen1, last_check := Some (now_iso w2 0)\<rparr>)"
    by (simp add: check_tickets_def assms(2) l2)
  show ?thesis by (simp add: second_run_def c1 c2)
qed

theorem detection_idempotent_witness:
  "query_tickets (world_of [sample_ticket (str ''1'') (str ''100'') (str ''no dial tone''),
                            sample_ticket (str ''2'') (str ''200'') (str ''voicemail full'')])
     (str ''20859'') 2 =
     Inr [sample_ticket (str ''1'') (str ''100'') (str ''no dial tone''),
          sample_ticket (str ''2'') (str ''200'') (str ''voicemail full'')] \<and>
   one_revision_per_id [sample_ticket (str ''1'') (str ''100'') (str ''no dial tone''),
                        sample_ticket (str ''2'') (str ''200'') (str ''voicemail full'')] \<and>
   second_run
     (world_of [sample_ticket (str ''1'') (str ''100'') (str ''no dial tone''),
                sample_ticket (str ''2'') (str ''200'') (str ''voicemail full'')])
     (world_of [sample_ticket (str ''1'') (str ''100'') (str ''no dial tone''),
                sample_ticket (str ''2'') (str ''200'') (str ''voicemail full'')])
     (str ''20859'') 2 empty_state = Some ([], [])"
proof -
  let ?ds = "[sample_ticket (str ''1'') (str ''100'') (str ''no dial tone''),
              sample_ticket (str ''2'') (str ''200'') (str ''voicemail full'')]"
  have q: "query_tickets (world_of ?ds) (str ''20859'') 2 = Inr ?ds"
    by (rule query_tickets_world_of)
  have o: "one_revision_per_id ?ds"
    by (simp add: one_revision_per_id_def ticket_key_sample modify_time_sample str_def)
  from detection_idempotent [OF q q o, of empty_state] q o show ?thesis by simp
qed

text \<open>
  The claim as it stands, for every dataset, fails on a dataset that lists ticket 1
  twice, at revisions 100 and 150: the first run stores 150, so the second run meets the
  entry at 100 as a change, stores 100, and meets the entry at 150 as a change again.
\<close>

theorem detection_idempotent_counterexample:
  "second_run
     (world_of [sample_ticket (str ''1'') (str ''100'') (str ''no dial tone''),
                sample_ticket (str ''1'') (str ''150'') (str ''no dial tone'')])
     (world_of [sample_ticket (str ''1'') (str ''100'') (str ''no dial tone''),
                sample_ticket (str ''1'') (str ''150'') (str ''no dial tone'')])
     (str ''20859'') 2 empty_state =
   Some ([], [sample_ticket (str ''1'') (str ''100'') (str ''no dial tone''),
              sample_ticket (str ''1'') (str ''150'') (str ''no dial tone'')])"
  by (simp add: second_run_def check_tickets_def query_tickets_world_of check_loop_def
        ticket_key_sample modify_time_sample empty_state_def str_def)

text \<open>
  Claim C10. Detection rewrites nothing of a seen record but \<^verbatim>\<open>modify_date\<close> and
  \<^verbatim>\<open>last_updated\<close>: through any number of runs the record of an identifier the state
  holds stays in the state with its \<^verbatim>\<open>first_seen\<close> and every other field as they
  were; and the record of an identifier that no response included is not modified at
  all.
\<close>

theorem detection_frame:
  "(seen_tickets state i = Some r \<longrightarrow>
      (\<exists>r'. seen_tickets (run_cycles ws profile hours state) i = Some r' \<and>
            first_seen r' = first_seen r \<and>
            r' = r\<lparr>modify_date := modify_date r', last_updated := last_updated r'\<rparr>)) \<and>
   ((\<forall>t \<in> set (received ws profile hours). ticket_key t \<noteq> i) \<longrightarrow>
      seen_tickets (run_cycles ws profile hours state) i = seen_tickets state i)"
proof (intro conjI impI)
  assume "seen_tickets state i = Some r"
  from run_cycles_keeps [OF this, of ws profile hours] obtain r' where
    r': "seen_tickets (run_cycles ws profile hours state) i = Some r'"
        "r' = r\<lparr>modify_date := modify_date r', last_updated := last_updated r'\<rparr>" by blast
  have "first_seen (r\<lparr>modify_date := modify_date r', last_updated := last_updated r'\<rparr>) =
        first_seen r" by simp
  with r'(2) have "first_seen r' = first_seen r" by simp
  with r' show "\<exists>r'. seen_tickets (run_cycles ws profile hours state) i = Some r' \<and>
            first_seen r' = first_seen r \<and>
            r' = r\<lparr>modify_date := modify_date r', last_updated := last_updated r'\<rparr>" by blast
next
  assume "\<forall>t \<in> set (received ws profile hours). ticket_key t \<noteq> i"
  then show "seen_tickets (run_cycles ws profile hours state) i = seen_tickets state i"
    by (rule run_cycles_frame)
qed

text \<open>
  The state holds tickets 1 and 7; a run receives ticket 1 at a new revision. The record
  of ticket 1 keeps its \<^verbatim>\<open>first_seen\<close>, the record of ticket 7 is as it was.
\<close>

theorem detection_frame_witness:
  "seen_tickets sample_state (str ''1'') =
     Some \<lparr>modify_date = Some (JStr (str ''100'')),
           first_seen = Some (str ''2025-12-31T09:00:00''), last_updated = None\<rparr> \<and>
   (\<exists>r'. seen_tickets
           (run_cycles [world_of [sample_ticket (str ''1'') (str ''150'') (str ''no dial tone'')]]
              (str ''20859'') 2 sample_state) (str ''1'') = Some r' \<and>
         first_seen r' = Some (str ''2025-12-31T09:00:00'')) \<and>
   str ''7'' \<notin> ticket_key `
     set (received [world_of [sample_ticket (str ''1'') (str ''150'') (str ''no dial tone'')]]
            (str ''20859'') 2) \<and>
   seen_tickets
     (run_cycles [world_of [sample_ticket (str ''1'') (str ''150'') (str ''no dial tone'')]]
        (str ''20859'') 2 sample_state) (str ''7'') =
     Some \<lparr>modify_date = Some (JStr (str ''70'')),
           first_seen = Some (str ''2025-12-30T08:00:00''), last_updated = None\<rparr>"
proof -
  let ?ws = "[world_of [sample_ticket (str ''1'') (str ''150'') (str ''no dial tone'')]]"
  let ?r1 = "\<lparr>modify_date = Some (JStr (str ''100'')),
           first_seen = Some (str ''2025-12-31T09:00:00''), last_updated = None\<rparr>"
  have r: "received ?ws (str ''20859'') 2 =
           [sample_ticket (str ''1'') (str ''150'') (str ''no dial tone'')]"
    by (simp add: received_def query_tickets_world_of)
  have h1: "seen_tickets sample_state (str ''1'') = Some ?r1"
    by (simp add: sample_state_def str_def)
  have h7: "seen_tickets sample_state (str ''7'') =
     Some \<lparr>modify_date = Some (JStr (str ''70'')),
           first_seen = Some (str ''2025-12-30T08:00:00''), last_updated = None\<rparr>"
    by (simp add: sample_state_def str_def)
  have n7: "str ''7'' \<notin> ticket_key ` set (received ?ws (str ''20859'') 2)"
    unfolding r by (simp add: ticket_key_sample str_def)
  have "\<And>x (f :: ticket \<Rightarrow> pystr) A. x \<notin> f ` A \<Longrightarrow> \<forall>t \<in> A. f t \<noteq> x" by blast
  from this [OF n7]
  have h2: "\<forall>t \<in> set (received ?ws (str ''20859'') 2). ticket_key t \<noteq> str ''7''" .
  from detection_frame [of sample_state "str ''1''" ?r1 ?ws "str ''20859''" 2] h1
  have a: "\<exists>r'. seen_tickets (run_cycles ?ws (str ''20859'') 2 sample_state) (str ''1'') = Some r' \<and>
         first_seen r' = Some (str ''2025-12-31T09:00:00'')"
    by auto
  from detection_frame [of sample_state "str ''7''" _ ?ws "str ''20859''" 2] h2 h7
  have b: "seen_tickets (run_cycles ?ws (str ''20859'') 2 sample_state) (str ''7'') =
     Some \<lparr>modify_date = Some (JStr (str ''70'')),
           first_seen = Some (str ''2025-12-30T08:00:00''), last_updated = None\<rparr>"
    by simp
  from h1 a n7 b show ?thesis by blast
qed

subsection \<open>The fallback verdict\<close>


text \<open>On an empty subject and an empty body the verdict asks for a review.\<close>

lemma fallback_empty:
  "generate_fallback_triage ascii_lower t [] [] [] =
   render_verdict \<lparr>verdict_summary = [], verdict_category = str ''other'',
     verdict_urgency = yellow_circle @ str '' Medium'', verdict_action = str ''Review ticket''\<rparr>"
  by (simp add: generate_fallback_triage_def render_verdict_def Let_def ascii_lower_def
     any_in_def spam_signals_def auto_signals_def request_signals_def billing_signals_def urgent_signals_def str_def)

text \<open>
  On the subject \<^verbatim>\<open>no dial tone\<close> with the reasoning command unavailable, the verdict
  is urgent.
\<close>

lemma fallback_no_dial_tone:
  "generate_fallback_triage ascii_lower t (str ''no dial tone'') [] (str ''timeout'') =
   render_verdict \<lparr>verdict_summary = str ''no dial tone'', verdict_category = str ''other'',
     verdict_urgency = red_circle @ str '' High'',
     verdict_action = str ''Review ticket (fallback: timeout)''\<rparr>"
  by (simp add: generate_fallback_triage_def render_verdict_def Let_def ascii_lower_def
     any_in_def spam_signals_def auto_signals_def request_signals_def billing_signals_def
     urgent_signals_def str_def)

subsection \<open>The triage pass\<close>

lemma post_slack_events:
  "deliveries (post_triage_to_slack w n channel t summary tok) = [(Slack, t)] \<and>
   candidates (post_triage_to_slack w n channel t summary tok) = [] \<and>
   (\<forall>e \<in> set (post_triage_to_slack w n channel t summary tok). about e = Some t \<or> about e = None)"
  by (simp add: post_triage_to_slack_def deliveries_def candidates_def split: slack_result.splits)

lemma post_discord_events:
  "deliveries (post_triage_to_discord w n webhook t summary) = [(Discord, t)] \<and>
   candidates (post_triage_to_discord w n webhook t summary) = [] \<and>
   (\<forall>e \<in> set (post_triage_to_discord w n webhook t summary). about e = Some t \<or> about e = None)"
  by (simp add: post_triage_to_discord_def deliveries_def candidates_def split: webhook_result.splits)

lemma deliveries_append: "deliveries (xs @ ys) = deliveries xs @ deliveries ys"
  by (simp add: deliveries_def List.map_filter_def)

lemma candidates_append: "candidates (xs @ ys) = candidates xs @ candidates ys"
  by (simp add: candidates_def List.map_filter_def)

lemma triage_loop_stop:
  "5 \<le> c \<Longrightarrow> triage_loop lower w profile sc st dw ts c = []"
  by (cases ts) simp_all

lemma triage_loop_skip:
  "c < 5 \<Longrightarrow> fst (should_skip_ticket lower t) \<Longrightarrow>
   triage_loop lower w profile sc st dw (t # ts) c =
   Print_Skipping t (snd (should_skip_ticket lower t)) # triage_loop lower w profile sc st dw ts c"
  by simp

lemma triage_loop_triage:
  assumes "c < 5" and "\<not> fst (should_skip_ticket lower t)"
  shows "\<exists>body. triage_loop lower w profile sc st dw (t # ts) c =
           Print_Triaging t # body @ triage_loop lower w profile sc st dw ts (Suc c) \<and>
           deliveries body = [(chosen_destination sc st dw, t)] \<and>
           candidates body = [] \<and>
           (\<forall>e \<in> set body. about e = Some t \<or> about e = None)"
proof -
  define fetch where "fetch = (if jtruthy (ticket_id t)
                     then [Get_Details t (get_default (ticket_id t) JNull)] else [])"
  define details where "details = (if jtruthy (ticket_id t)
                       then get_ticket_details w (get_default (ticket_id t) JNull) profile
                       else empty_response)"
  define asked where "asked = triage_with_claude lower w (Suc c) t details"
  define posted where "posted =
              (if truthy sc \<and> truthy st then
                 post_triage_to_slack w (Suc c) (get_default sc []) t (snd asked)
                   (get_default st [])
               else if truthy dw then
                 post_triage_to_discord w (Suc c) (get_default dw []) t (snd asked)
               else [Print_Verdict t (snd asked)])"
  have loop: "triage_loop lower w profile sc st dw (t # ts) c =
        Print_Triaging t # (fetch @ fst asked @ posted) @
        triage_loop lower w profile sc st dw ts (Suc c)"
    using assms by (simp add: Let_def fetch_def details_def asked_def posted_def)
  have f: "deliveries fetch = [] \<and> candidates fetch = [] \<and>
           (\<forall>e \<in> set fetch. about e = Some t \<or> about e = None)"
    by (simp add: fetch_def deliveries_def candidates_def)
  have a: "deliveries (fst asked) = [] \<and> candidates (fst asked) = [] \<and>
           (\<forall>e \<in> set (fst asked). about e = Some t \<or> about e = None)"
    by (simp add: asked_def triage_with_claude_def Let_def deliveries_def candidates_def)
  have p: "deliveries posted = [(chosen_destination sc st dw, t)] \<and> candidates posted = [] \<and>
           (\<forall>e \<in> set posted. about e = Some t \<or> about e = None)"
    using post_slack_events [of w "Suc c" "get_default sc []" t "snd asked" "get_default st []"]
      post_discord_events [of w "Suc c" "get_default dw []" t "snd asked"]
    by (simp add: posted_def chosen_destination_def deliveries_def candidates_def)
  from f a p have "deliveries (fetch @ fst asked @ posted) = [(chosen_destination sc st dw, t)] \<and>
           candidates (fetch @ fst asked @ posted) = [] \<and>
           (\<forall>e \<in> set (fetch @ fst asked @ posted). about e = Some t \<or> about e = None)"
    by (auto simp: deliveries_append candidates_append)
  with loop show ?thesis by blast
qed


lemma deliveries_Cons: "deliveries (e # es) = deliveries [e] @ deliveries es"
  using deliveries_append [of "[e]" es] by simp

lemma candidates_Cons: "candidates (e # es) = candidates [e] @ candidates es"
  using candidates_append [of "[e]" es] by simp

lemma triage_loop_deliveries:
  "deliveries (triage_loop lower w profile sc st dw ts c) =
   map (Pair (chosen_destination sc st dw))
     (take (5 - c) (filter (\<lambda>t. \<not> fst (should_skip_ticket lower t)) ts))"
proof (induction ts arbitrary: c)
  case Nil
  show ?case by (simp add: deliveries_def)
next
  case (Cons t ts)
  show ?case
  proof (cases "5 \<le> c")
    case True
    then show ?thesis by (simp add: triage_loop_stop deliveries_def)
  next
    case False
    then have c: "c < 5" by simp
    show ?thesis
    proof (cases "fst (should_skip_ticket lower t)")
      case True
      have "deliveries (triage_loop lower w profile sc st dw (t # ts) c) =
            deliveries (triage_loop lower w profile sc st dw ts c)"
        unfolding triage_loop_skip [OF c True]
        by (subst deliveries_Cons) (simp add: deliveries_def)
      with True Cons [of c] show ?thesis by simp
    next
      case False
      from triage_loop_triage [OF c False, of w profile sc st dw ts] obtain body where
        l: "triage_loop lower w profile sc st dw (t # ts) c =
            Print_Triaging t # body @ triage_loop lower w profile sc st dw ts (Suc c)"
        and d: "deliveries body = [(chosen_destination sc st dw, t)]" by blast
      have "deliveries (triage_loop lower w profile sc st dw (t # ts) c) =
            (chosen_destination sc st dw, t) #
            deliveries (triage_loop lower w profile sc st dw ts (Suc c))"
        unfolding l by (subst deliveries_Cons) (simp add: deliveries_append d, simp add: deliveries_def)
      moreover from c have "5 - c = Suc (5 - Suc c)" by simp
      ultimately show ?thesis using False Cons [of "Suc c"] by simp
    qed
  qed
qed

lemma triage_loop_candidates:
  "prefix (candidates (triage_loop lower w profile sc st dw ts c)) ts \<and>
   ((\<forall>t \<in> set ts. \<not> fst (should_skip_ticket lower t)) \<longrightarrow>
      candidates (triage_loop lower w profile sc st dw ts c) = take (5 - c) ts)"
proof (induction ts arbitrary: c)
  case Nil
  show ?case by (simp add: candidates_def)
next
  case (Cons t ts)
  show ?case
  proof (cases "5 \<le> c")
    case True
    then show ?thesis by (simp add: triage_loop_stop candidates_def)
  next
    case False
    then have c: "c < 5" by simp
    show ?thesis
    proof (cases "fst (should_skip_ticket lower t)")
      case True
      have "candidates (triage_loop lower w profile sc st dw (t # ts) c) =
            t # candidates (triage_loop lower w profile sc st dw ts c)"
        unfolding triage_loop_skip [OF c True]
        by (subst candidates_Cons) (simp add: candidates_def)
      with True Cons [of c] show ?thesis by simp
    next
      case False
      from triage_loop_triage [OF c False, of w profile sc st dw ts] obtain body where
        l: "triage_loop lower w profile sc st dw (t # ts) c =
            Print_Triaging t # body @ triage_loop lower w profile sc st dw ts (Suc c)"
        and d: "candidates body = []" by blast
      have "candidates (triage_loop lower w profile sc st dw (t # ts) c) =
            t # candidates (triage_loop lower w profile sc st dw ts (Suc c))"
        unfolding l by (subst candidates_Cons) (simp add: candidates_append d, simp add: candidates_def)
      moreover from c have "5 - c = Suc (5 - Suc c)" by simp
      ultimately show ?thesis using Cons [of "Suc c"] by simp
    qed
  qed
qed

lemma triage_loop_about:
  "\<forall>e \<in> set (triage_loop lower w profile sc st dw ts c). \<forall>t. about e = Some t \<longrightarrow>
     t \<in> set (candidates (triage_loop lower w profile sc st dw ts c)) \<and>
     (fst (should_skip_ticket lower t) \<longrightarrow> e = Print_Skipping t (snd (should_skip_ticket lower t)))"
proof (induction ts arbitrary: c)
  case Nil
  show ?case by simp
next
  case (Cons t ts)
  show ?case
  proof (cases "5 \<le> c")
    case True
    then show ?thesis by (simp add: triage_loop_stop)
  next
    case False
    then have c: "c < 5" by simp
    show ?thesis
    proof (cases "fst (should_skip_ticket lower t)")
      case True
      have cand: "candidates (triage_loop lower w profile sc st dw (t # ts) c) =
            t # candidates (triage_loop lower w profile sc st dw ts c)"
        unfolding triage_loop_skip [OF c True]
        by (subst candidates_Cons) (simp add: candidates_def)
      show ?thesis
        unfolding cand unfolding triage_loop_skip [OF c True]
        using Cons [of c] by auto
    next
      case False
      from triage_loop_triage [OF c False, of w profile sc st dw ts] obtain body where
        l: "triage_loop lower w profile sc st dw (t # ts) c =
            Print_Triaging t # body @ triage_loop lower w profile sc st dw ts (Suc c)"
        and d: "candidates body = []"
        and b: "\<forall>e \<in> set body. about e = Some t \<or> about e = None" by blast
      have cand: "candidates (triage_loop lower w profile sc st dw (t # ts) c) =
            t # candidates (triage_loop lower w profile sc st dw ts (Suc c))"
        unfolding l by (subst candidates_Cons) (simp add: candidates_append d, simp add: candidates_def)
      show ?thesis
        unfolding cand unfolding l
        using Cons [of "Suc c"] b False by auto
    qed
  qed
qed

lemma should_skip_outage:
  "should_skip_ticket ascii_lower (sample_ticket i revision (str ''no dial tone'')) = (False, [])"
  by (simp add: should_skip_ticket_def sample_ticket_def ascii_lower_def any_in_def
        billing_keywords_def spam_domains_def system_keywords_def str_def)

lemma twenty_not_skipped:
  "\<forall>t \<in> set twenty_tickets. \<not> fst (should_skip_ticket ascii_lower t)"
  by (auto simp: twenty_tickets_def digits.simps should_skip_outage)

lemma check_twenty:
  "\<exists>st. check_tickets (world_of twenty_tickets) (str ''20859'') empty_state 2 =
        Inr ((twenty_tickets, []), st)"
  by (simp add: check_tickets_def query_tickets_world_of check_loop_def empty_state_def
        twenty_tickets_def digits.simps ticket_key_sample modify_time_sample str_def)

lemma main_twenty:
  "fst (main ascii_lower triage_args (world_of twenty_tickets) sample_fs) = Exit 0 \<and>
   snd (snd (main ascii_lower triage_args (world_of twenty_tickets) sample_fs)) =
   triage_tickets_immediately ascii_lower (world_of twenty_tickets) twenty_tickets
     (str ''20859'') None None None"
proof -
  from check_twenty obtain st where
    c: "check_tickets (world_of twenty_tickets) (str ''20859'') empty_state 2 =
        Inr ((twenty_tickets, []), st)" by blast
  have l: "load_state sample_fs (str ''state.json'') = empty_state"
    by (simp add: load_state_def sample_fs_def str_def)
  have s: "save_state st (str ''state.json'') sample_fs =
           Inr (sample_fs\<lparr>files := (files sample_fs)(str ''state.json'' \<mapsto> Document st)\<rparr>)"
    by (simp add: save_state_def write_text_def sample_fs_def dirname_def str_def)
  have e: "environ (world_of twenty_tickets) = Map.empty" by (simp add: world_of_def)
  have n: "twenty_tickets \<noteq> []" by (simp add: twenty_tickets_def digits.simps)
  have a: "arg_state_file triage_args = str ''state.json''" "arg_profile triage_args = str ''20859''"
    "arg_hours triage_args = 2" "arg_webhook_url triage_args = None" "arg_quiet triage_args"
    "\<not> arg_important_only triage_args" "arg_triage triage_args" "arg_slack_channel triage_args = None"
    "arg_slack_token triage_args = None" "\<not> arg_json triage_args"
    by (simp_all add: triage_args_def)
  have ne: "str ''state.json'' \<noteq> []" by (simp add: str_def)
  show ?thesis
    by (simp add: main_def a ne e l c s n Let_def)
qed

lemma triage_events_about:
  assumes "\<forall>t \<in> set tickets. \<not> fst (should_skip_ticket lower t)"
    and "e \<in> set (triage_tickets_immediately lower w tickets profile sc st dw)"
    and "about e = Some t"
  shows "t \<in> set (take 5 tickets)"
proof -
  let ?ts = "take 10 tickets"
  from assms(1) have "\<forall>t \<in> set ?ts. \<not> fst (should_skip_ticket lower t)"
    by (meson in_set_takeD)
  with triage_loop_candidates [of lower w profile sc st dw ?ts 0]
  have "candidates (triage_loop lower w profile sc st dw ?ts 0) = take 5 tickets" by simp
  with triage_loop_about [of lower w profile sc st dw ?ts 0] assms(2,3)
  show ?thesis unfolding triage_tickets_immediately_def by fastforce
qed

text \<open>
  Claim C8. Every verdict of a triage pass goes to one destination, the same for the whole
  pass and chosen by precedence: the Slack channel when a channel and a bot token are
  configured, otherwise the webhook when one is configured, otherwise standard output.
  The verdicts delivered are exactly one per triaged ticket, so no other destination
  receives a verdict.
\<close>

theorem one_destination:
  "deliveries (triage_tickets_immediately lower w tickets profile slack_channel slack_token
      discord_webhook) =
   map (Pair (chosen_destination slack_channel slack_token discord_webhook))
     (to_triage lower tickets)"
  by (simp add: triage_tickets_immediately_def triage_loop_deliveries to_triage_def)

text \<open>
  Claim C4, as amended. A triage pass gives a verdict to the first five tickets it does
  not skip among the first ten, so to at most five, and the candidates it looks at are an
  initial segment of the first ten. A ticket beyond that bound is left unclassified, and
  the pass prints and posts nothing about it: when no ticket is skipped, the verdicts and
  the candidates are the first five tickets and every event is about one of them (of 20
  such tickets, 5 receive a verdict and 15 are not mentioned).
\<close>

theorem triage_rate_limit:
  assumes "evs = triage_tickets_immediately lower w tickets profile slack_channel slack_token
      discord_webhook"
  shows "verdicts evs = to_triage lower tickets \<and> length (verdicts evs) \<le> 5 \<and>
         prefix (candidates evs) (take 10 tickets) \<and>
         ((\<forall>t \<in> set tickets. \<not> fst (should_skip_ticket lower t)) \<longrightarrow>
            verdicts evs = take 5 tickets \<and> candidates evs = take 5 tickets \<and>
            (\<forall>e \<in> set evs. \<forall>t. about e = Some t \<longrightarrow> t \<in> set (take 5 tickets)))"
proof -
  let ?ts = "take 10 tickets"
  have evs: "evs = triage_loop lower w profile slack_channel slack_token discord_webhook ?ts 0"
    by (simp add: assms triage_tickets_immediately_def)
  have v: "verdicts evs = to_triage lower tickets"
    by (simp add: verdicts_def evs triage_loop_deliveries to_triage_def comp_def)
  then have n: "length (verdicts evs) \<le> 5" by (simp add: to_triage_def)
  note c = triage_loop_candidates [of lower w profile slack_channel slack_token discord_webhook ?ts 0]
  from c have p: "prefix (candidates evs) ?ts" by (simp add: evs)
  have all: "verdicts evs = take 5 tickets \<and> candidates evs = take 5 tickets \<and>
            (\<forall>e \<in> set evs. \<forall>t. about e = Some t \<longrightarrow> t \<in> set (take 5 tickets))"
    if ns: "\<forall>t \<in> set tickets. \<not> fst (should_skip_ticket lower t)"
  proof -
    from ns have ns': "\<forall>t \<in> set ?ts. \<not> fst (should_skip_ticket lower t)"
      by (meson in_set_takeD)
    then have "filter (\<lambda>t. \<not> fst (should_skip_ticket lower t)) ?ts = ?ts" by simp
    then have v5: "verdicts evs = take 5 tickets" by (simp add: v to_triage_def)
    from c ns' have c5: "candidates evs = take 5 tickets" by (simp add: evs)
    from triage_loop_about [of lower w profile slack_channel slack_token discord_webhook ?ts 0]
    have "\<forall>e \<in> set evs. \<forall>t. about e = Some t \<longrightarrow> t \<in> set (candidates evs)"
      unfolding evs by blast
    with v5 c5 show ?thesis by simp
  qed
  from v n p all show ?thesis by blast
qed

theorem triage_rate_limit_witness:
  "list_all (\<lambda>t. \<not> fst (should_skip_ticket ascii_lower t)) twenty_tickets \<and>
   length twenty_tickets = 20 \<and>
   verdicts (triage_tickets_immediately ascii_lower (world_of twenty_tickets) twenty_tickets
      (str ''20859'') None None None) = take 5 twenty_tickets \<and>
   length (verdicts (triage_tickets_immediately ascii_lower (world_of twenty_tickets)
      twenty_tickets (str ''20859'') None None None)) = 5 \<and>
   candidates (triage_tickets_immediately ascii_lower (world_of twenty_tickets) twenty_tickets
      (str ''20859'') None None None) = take 5 twenty_tickets"
proof -
  let ?evs = "triage_tickets_immediately ascii_lower (world_of twenty_tickets) twenty_tickets
      (str ''20859'') None None None"
  have h: "\<forall>t \<in> set twenty_tickets. \<not> fst (should_skip_ticket ascii_lower t)"
    by (rule twenty_not_skipped)
  have n: "length twenty_tickets = 20" by (simp add: twenty_tickets_def digits.simps)
  from triage_rate_limit [OF refl, of ascii_lower "world_of twenty_tickets" twenty_tickets
      "str ''20859''" None None None] h
  have "verdicts ?evs = take 5 twenty_tickets \<and> candidates ?evs = take 5 twenty_tickets"
    by blast
  with h n show ?thesis by (simp add: list_all_iff)
qed

text \<open>
  The claim as it stands has the tickets beyond the bound logged as pending review. A run
  with \<^verbatim>\<open>--triage --quiet\<close> on twenty new tickets, none of them skipped, ends with
  status 0 and has printed and posted nothing about the sixth ticket.
\<close>

theorem triage_rate_limit_counterexample:
  "list_all (\<lambda>t. \<not> fst (should_skip_ticket ascii_lower t)) twenty_tickets \<and>
   length twenty_tickets = 20 \<and>
   fst (main ascii_lower triage_args (world_of twenty_tickets) sample_fs) = Exit 0 \<and>
   \<not> (\<forall>t \<in> set (drop 5 twenty_tickets).
        \<exists>e \<in> set (snd (snd (main ascii_lower triage_args (world_of twenty_tickets) sample_fs))).
          about e = Some t)"
proof -
  let ?t6 = "sample_ticket (str ''6'') (str ''100'') (str ''no dial tone'')"
  have h: "\<forall>t \<in> set twenty_tickets. \<not> fst (should_skip_ticket ascii_lower t)"
    by (rule twenty_not_skipped)
  have n: "length twenty_tickets = 20" by (simp add: twenty_tickets_def digits.simps)
  have in6: "?t6 \<in> set (drop 5 twenty_tickets)"
    by (simp add: twenty_tickets_def digits.simps str_def)
  have out6: "?t6 \<notin> set (take 5 twenty_tickets)"
    by (simp add: twenty_tickets_def digits.simps sample_ticket_def str_def)
  have "\<not> (\<exists>e \<in> set (snd (snd (main ascii_lower triage_args (world_of twenty_tickets) sample_fs))).
          about e = Some ?t6)"
    using triage_events_about [OF h, of _ "world_of twenty_tickets" "str ''20859''" None None None ?t6]
      out6 main_twenty by auto
  with in6 have "\<not> (\<forall>t \<in> set (drop 5 twenty_tickets).
        \<exists>e \<in> set (snd (snd (main ascii_lower triage_args (world_of twenty_tickets) sample_fs))).
          about e = Some t)" by blast
  with h n main_twenty show ?thesis by (simp add: list_all_iff)
qed

text \<open>
  Claim C5. A ticket whose subject, in lower case, contains a billing keyword is skipped
  with the reason billing/invoice, and a triage pass does nothing about it but print the
  \<^verbatim>\<open>Skipping\<close> line: no detail is fetched, no verdict is generated and nothing is
  posted for it, whatever its body says (the body is never fetched).
\<close>

theorem billing_subject_skipped:
  assumes "subject t = Some s" and "kw \<in> set billing_keywords" and "py_in kw (lower s)"
  shows "should_skip_ticket lower t = (True, str ''billing/invoice'') \<and>
         (\<forall>e \<in> set (triage_tickets_immediately lower w tickets profile slack_channel slack_token
                      discord_webhook).
            about e = Some t \<longrightarrow> e = Print_Skipping t (str ''billing/invoice''))"
proof -
  from assms(1) have "or_else (subject t) [] = s" by simp
  moreover from assms(2,3) have "any_in billing_keywords (lower s)"
    by (auto simp: any_in_def list_ex_iff)
  ultimately have skip: "should_skip_ticket lower t = (True, str ''billing/invoice'')"
    by (simp add: should_skip_ticket_def Let_def)
  from triage_loop_about [of lower w profile slack_channel slack_token discord_webhook
      "take 10 tickets" 0] skip
  have "\<forall>e \<in> set (triage_tickets_immediately lower w tickets profile slack_channel slack_token
                      discord_webhook).
            about e = Some t \<longrightarrow> e = Print_Skipping t (str ''billing/invoice'')"
    unfolding triage_tickets_immediately_def by fastforce
  with skip show ?thesis by simp
qed

text \<open>
  The invoice ticket of the specification, in a world whose ticket bodies report an
  outage: the pass prints the \<^verbatim>\<open>Skipping\<close> line and nothing else.
\<close>

theorem billing_subject_skipped_witness:
  "subject invoice_ticket = Some (str ''Invoice #552 attached '' @ [8212] @ str '' please pay'') \<and>
   str ''invoice'' \<in> set billing_keywords \<and>
   py_in (str ''invoice'')
     (ascii_lower (str ''Invoice #552 attached '' @ [8212] @ str '' please pay'')) \<and>
   should_skip_ticket ascii_lower invoice_ticket = (True, str ''billing/invoice'') \<and>
   triage_tickets_immediately ascii_lower (world_of [invoice_ticket]) [invoice_ticket]
     (str ''20859'') None None None = [Print_Skipping invoice_ticket (str ''billing/invoice'')]"
proof -
  let ?s = "str ''Invoice #552 attached '' @ [8212] @ str '' please pay''"
  have h1: "subject invoice_ticket = Some ?s"
    by (simp add: invoice_ticket_def sample_ticket_def)
  have h2: "str ''invoice'' \<in> set billing_keywords" by (simp add: billing_keywords_def)
  have h3: "py_in (str ''invoice'') (ascii_lower ?s)"
    by (simp add: ascii_lower_def str_def)
  from billing_subject_skipped [of invoice_ticket ?s "str ''invoice''" ascii_lower, OF h1 h2 h3]
  have skip: "should_skip_ticket ascii_lower invoice_ticket = (True, str ''billing/invoice'')"
    by blast
  then have "triage_tickets_immediately ascii_lower (world_of [invoice_ticket]) [invoice_ticket]
     (str ''20859'') None None None = [Print_Skipping invoice_ticket (str ''billing/invoice'')]"
    by (simp add: triage_tickets_immediately_def)
  with h1 h2 h3 skip show ?thesis by blast
qed

subsection \<open>Credentials\<close>

lemma try_paths_first:
  "\<forall>path \<in> set paths. pass_cmd w path \<noteq> SpawnFailed \<Longrightarrow>
   try_paths w profile paths =
   (case List.map_filter (secret_at w) paths of
      [] \<Rightarrow> Inl (RuntimeError (str ''Could not load credentials for profile '' @ profile))
    | c # cs \<Rightarrow> Inr c)"
proof (induction paths)
  case Nil
  show ?case by simp
next
  case (Cons path paths)
  then show ?case
    by (cases "pass_cmd w path") (simp_all add: secret_at_def Let_def)
qed

lemma try_paths_environ:
  "try_paths (w\<lparr>environ := env\<rparr>) profile paths = try_paths w profile paths"
  by (induction paths) (simp_all add: Let_def split: proc_result.splits)

lemma try_paths_runtime:
  "try_paths w profile paths = Inl (RuntimeError m) \<Longrightarrow> List.map_filter (secret_at w) paths = []"
proof (induction paths)
  case Nil
  show ?case by simp
next
  case (Cons path paths)
  then show ?case
    by (cases "pass_cmd w path") (simp_all add: secret_at_def Let_def split: if_splits)
qed

text \<open>
  Claim C7, as amended. Credential resolution tries the lookup paths of the secret store
  in order and returns the normalized credentials of the first path whose secret holds a
  non-empty token; it fails with the \<^verbatim>\<open>RuntimeError\<close> only when no path yields one.
  A line without \<^verbatim>\<open>=\<close> and a comment line change nothing, and the legacy key
  \<^verbatim>\<open>VISION_TOKEN\<close> gives the token when there is no key \<^verbatim>\<open>token\<close>. The environment
  is not consulted: whatever it holds, the result is the same. (When the secret-store
  command cannot be started, its error is passed on.)
\<close>

theorem credentials_from_secret_store:
  "((\<forall>path \<in> set (paths_to_try profile). pass_cmd w path \<noteq> SpawnFailed) \<longrightarrow>
      get_credentials w profile =
      (case List.map_filter (secret_at w) (paths_to_try profile) of
         [] \<Rightarrow> Inl (RuntimeError (str ''Could not load credentials for profile '' @ profile))
       | c # cs \<Rightarrow> Inr c)) \<and>
   (get_credentials w profile = Inl (RuntimeError m) \<longrightarrow>
      List.map_filter (secret_at w) (paths_to_try profile) = []) \<and>
   get_credentials (w\<lparr>environ := env\<rparr>) profile = get_credentials w profile \<and>
   (61 \<notin> set line \<or> is_comment line \<longrightarrow> parse_line creds line = creds) \<and>
   (creds (str ''token'') = None \<longrightarrow> token (normalize_creds creds) = creds (str ''VISION_TOKEN''))"
proof (intro conjI impI)
  assume "\<forall>path \<in> set (paths_to_try profile). pass_cmd w path \<noteq> SpawnFailed"
  then show "get_credentials w profile =
      (case List.map_filter (secret_at w) (paths_to_try profile) of
         [] \<Rightarrow> Inl (RuntimeError (str ''Could not load credentials for profile '' @ profile))
       | c # cs \<Rightarrow> Inr c)"
    unfolding get_credentials_def by (rule try_paths_first)
next
  assume "get_credentials w profile = Inl (RuntimeError m)"
  then show "List.map_filter (secret_at w) (paths_to_try profile) = []"
    unfolding get_credentials_def by (rule try_paths_runtime)
next
  show "get_credentials (w\<lparr>environ := env\<rparr>) profile = get_credentials w profile"
    by (simp add: get_credentials_def try_paths_environ)
next
  assume "61 \<notin> set line \<or> is_comment line"
  then show "parse_line creds line = creds" by (auto simp: parse_line_def)
next
  assume "creds (str ''token'') = None"
  then show "token (normalize_creds creds) = creds (str ''VISION_TOKEN'')"
    by (simp add: normalize_creds_def)
qed

text \<open>
  The claim as it stands has the resolver fall back to environment variables. With a
  secret store that has nothing and an environment that holds tokens, it fails.
\<close>

theorem credentials_from_secret_store_counterexample:
  "environ locked_world (str ''VISION_TOKEN'') = Some (str ''secret'') \<and>
   get_credentials locked_world (str ''20859'') =
     Inl (RuntimeError (str ''Could not load credentials for profile 20859''))"
  by (simp add: get_credentials_def paths_to_try_def locked_world_def world_of_def str_def)

lemma parse_stored_secret:
  "parse_creds stored_secret =
     [str ''VISION_TOKEN'' \<mapsto> str ''abc'', str ''url'' \<mapsto> str ''https://helpdesk.example/api'']"
  by (simp add: parse_creds_def parse_line_def stored_secret_def nl_def str_def strip_def
        strip_chars_def is_space_def is_comment_def)

text \<open>
  The first path fails, the second holds a comment, the legacy key with a quoted token
  and a URL: these are the credentials returned.
\<close>

theorem credentials_from_secret_store_witness:
  "list_all (\<lambda>path. pass_cmd store_world path \<noteq> SpawnFailed) (paths_to_try (str ''20859'')) \<and>
   get_credentials store_world (str ''20859'') =
     Inr \<lparr>token = Some (str ''abc''), url = str ''https://helpdesk.example/api''\<rparr> \<and>
   get_credentials locked_world (str ''20859'') =
     Inl (RuntimeError (str ''Could not load credentials for profile 20859'')) \<and>
   List.map_filter (secret_at locked_world) (paths_to_try (str ''20859'')) = [] \<and>
   is_comment (str ''# helpdesk'') \<and>
   parse_line Map.empty (str ''# helpdesk'') = Map.empty \<and>
   parse_creds stored_secret (str ''token'') = None \<and>
   token (normalize_creds (parse_creds stored_secret)) = Some (str ''abc'')"
proof -
  let ?p = "str ''20859''"
  have h1: "\<forall>path \<in> set (paths_to_try ?p). pass_cmd store_world path \<noteq> SpawnFailed"
    by (simp add: store_world_def paths_to_try_def)
  have n: "normalize_creds (parse_creds stored_secret) =
           \<lparr>token = Some (str ''abc''), url = str ''https://helpdesk.example/api''\<rparr>"
    by (simp add: parse_stored_secret normalize_creds_def) (simp add: str_def)
  have s: "List.map_filter (secret_at store_world) (paths_to_try ?p) =
           [\<lparr>token = Some (str ''abc''), url = str ''https://helpdesk.example/api''\<rparr>]"
    by (simp add: paths_to_try_def secret_at_def store_world_def n) (simp add: str_def)
  have h2: "get_credentials locked_world ?p =
     Inl (RuntimeError (str ''Could not load credentials for profile 20859''))"
    by (simp add: get_credentials_def paths_to_try_def locked_world_def world_of_def str_def)
  have h3: "is_comment (str ''# helpdesk'')"
    by (simp add: is_comment_def strip_def strip_chars_def is_space_def str_def)
  have h4: "parse_creds stored_secret (str ''token'') = None"
    by (simp add: parse_stored_secret) (simp add: str_def)
  note t = credentials_from_secret_store
  from t [where profile = ?p and w = store_world] h1 s
  have a: "get_credentials store_world ?p =
     Inr \<lparr>token = Some (str ''abc''), url = str ''https://helpdesk.example/api''\<rparr>"
    by simp
  from t [where profile = ?p and w = locked_world] h2
  have b: "List.map_filter (secret_at locked_world) (paths_to_try ?p) = []" by blast
  from t [where line = "str ''# helpdesk''" and creds = Map.empty] h3
  have c: "parse_line Map.empty (str ''# helpdesk'') = Map.empty" by blast
  from t [where creds = "parse_creds stored_secret"] h4 parse_stored_secret
  have d: "token (normalize_creds (parse_creds stored_secret)) = Some (str ''abc'')"
    by (simp add: str_def)
  from h1 a h2 b h3 c h4 d show ?thesis by (simp add: list_all_iff)
qed

subsection \<open>The state file\<close>




subsection \<open>How a run ends\<close>














lemma send_alert_raises:
  "send_discord_alert w n u title ts =
   (case (if ts = [] then Inr [] else alert_fields w (take 10 ts)) of
      Inl e \<Rightarrow> Inl e
    | Inr flds \<Rightarrow> send_discord_alert w n u title ts)"
  by (simp add: send_discord_alert_def split: sum.splits)










end
